theory Spec2Isabelle
  imports Main
begin

section \<open>Data model of the interaction layer\<close>

text \<open>
  The enums of \<open>common/constant\<close> are not part of the sources at hand; the members
  below are the ones \<open>RootInteraction\<close> names, and a catch-all constructor stands for
  every other member. TypeScript enum members live in the namespace of their enum, HOL
  constructors do not, so the members of \<open>InterceptType\<close> and \<open>S2Event\<close> carry a prefix.
\<close>

datatype InteractionStateName =
    SELECTED
  | ALL_SELECTED
  | UNSELECTED
  | HOVER
  | HOVER_FOCUS
  | ROW_CELL_BRUSH_SELECTED
  | COL_CELL_BRUSH_SELECTED
  | DATA_CELL_BRUSH_SELECTED
  | OtherStateName string

datatype InterceptType = Intercept_HOVER | OtherIntercept string

datatype CellType = DATA_CELL | ROW_CELL | COL_CELL | OtherCellType string

section \<open>Cells, nodes and the interaction state\<close>

text \<open>
  A cell of the sheet (\<open>S2CellType\<close>) is an object with an identity, a \<open>cellType\<close> and a
  \<open>getMeta()\<close> whose result \<open>changeCell\<close> tests for nil. The meta is a \<open>Node\<close> or a
  \<open>ViewMeta\<close>: of its fields the code reads \<open>id\<close>, \<open>x\<close>, \<open>y\<close> and \<open>belongsCell\<close>.
  Coordinates are only tested for nil and handed on. \<open>CellMeta\<close> is what the state
  records for a cell (\<open>id\<close>, \<open>colIndex\<close>, \<open>rowIndex\<close>, \<open>type\<close>).
\<close>

type_synonym cell_ref = nat

record ViewMeta =
  meta_id :: string
  meta_x :: "int option"
  meta_y :: "int option"
  belongsCell :: "cell_ref option"

record S2CellType =
  cell_ref :: cell_ref
  getMeta :: "ViewMeta option"
  cellType :: CellType

record CellMeta =
  cm_id :: string
  colIndex :: int
  rowIndex :: int
  cm_type :: CellType

text \<open>
  \<open>InteractionStateInfo\<close>: every field is optional in the callers of this file
  (\<open>changeState({stateName})\<close>, \<open>cells = []\<close> as a default, \<open>lastState?.nodes || []\<close>).
  \<open>onUpdateCells\<close> is a callback of the caller; the state keeps a handle to it and the
  environment says what the callback does.
\<close>

record InteractionStateInfo =
  stateName :: "InteractionStateName option"
  cells :: "CellMeta list option"
  nodes :: "ViewMeta list option"
  interactedCells :: "S2CellType list option"
  force :: "bool option"
  onUpdateCells :: "nat option"

record OffsetConfig =
  offset_value :: "int option"
  animate :: bool

record ScrollOffsetConfig =
  offsetX :: "OffsetConfig option"
  offsetY :: "OffsetConfig option"
  rowHeaderOffsetX :: "OffsetConfig option"

datatype S2Event_emitted = GLOBAL_SELECTED "S2CellType list"

datatype listener = OnTriggerInteractionsResetEffect | ForeignListener nat

text \<open>
  The handlers that \<open>registerInteractions\<close> instantiates: the thirteen classes this
  file imports and the classes of \<open>options.interaction.customInteractions\<close>.
\<close>

datatype BaseEvent =
    CornerCellClick
  | DataCellClick
  | RowColumnClick
  | RowTextClick
  | MergedCellClick
  | HoverEvent
  | DataCellBrushSelection
  | RowCellBrushSelection
  | ColCellBrushSelection
  | RowColumnResize
  | DataCellMultiSelection
  | RangeSelection
  | SelectedCellMove
  | CustomInteractionClass nat

text \<open>
  The state of one \<open>RootInteraction\<close> together with what it can change around it.
  \<open>store_state\<close> is \<open>spreadsheet.store.get(INTERACTION_STATE_INFO_KEY)\<close>, \<open>None\<close> while
  nothing (or a falsy value) is stored. \<open>defaultState\<close> is a field of the instance, so a
  theorem about every instance also covers one whose default object was written to.
  \<open>interactions\<close> is the \<open>Map\<close> in insertion order. The remaining fields record the calls
  that leave the class: \<open>clearTimeout\<close>, \<open>spreadsheet.emit\<close>, \<open>container.render\<close>,
  \<open>cell.update\<close>, \<open>cell.hideInteractionShape\<close>, \<open>belongsCell.updateByState\<close>,
  \<open>hideTooltip\<close>, \<open>facet.updateScrollOffset\<close>, \<open>reset\<close> of a registered handler,
  \<open>new EventController\<close>, \<open>eventController.clear\<close> and the \<open>visibilitychange\<close> listeners of \<open>window\<close>.
\<close>

record RootInteraction =
  store_state :: "InteractionStateInfo option"
  defaultState :: InteractionStateInfo
  intercepts :: "InterceptType set"
  hoverTimer :: "nat option"
  interactions :: "(string \<times> BaseEvent) list"
  clearedTimeouts :: "nat option list"
  emitted :: "S2Event_emitted list"
  renders :: nat
  updated :: "S2CellType list"
  hiddenShapes :: "S2CellType list"
  updatedByState :: "(cell_ref \<times> InteractionStateName) list"
  hideTooltipCalls :: nat
  scrollOffsetUpdates :: "ScrollOffsetConfig list"
  interactionResets :: "(string \<times> BaseEvent) list"
  eventControllers :: nat
  eventControllerClears :: nat
  visibilitychangeListeners :: "listener list"

section \<open>Intercepts: \<open>addIntercepts\<close>, \<open>hasIntercepts\<close>, \<open>removeIntercepts\<close>\<close>

text \<open>
  \<open>intercepts\<close> is a JavaScript \<open>Set\<close>; its members are enum strings, on which the
  set's SameValueZero comparison is equality. The three methods take
  \<open>interceptTypes: InterceptType[] = []\<close>: an omitted argument (\<open>None\<close>) is the empty list.
  \<open>forEach\<close> visits the list from left to right, \<open>some\<close> stops at the first hit.
\<close>

definition interceptTypes_arg :: "'a list option \<Rightarrow> 'a list" where
  "interceptTypes_arg a = (case a of None \<Rightarrow> [] | Some l \<Rightarrow> l)"

definition addIntercepts :: "InterceptType list option \<Rightarrow> RootInteraction \<Rightarrow> RootInteraction" where
  "addIntercepts a w =
     w\<lparr>intercepts := foldl (\<lambda>acc t. insert t acc) (intercepts w) (interceptTypes_arg a)\<rparr>"

definition removeIntercepts :: "InterceptType list option \<Rightarrow> RootInteraction \<Rightarrow> RootInteraction" where
  "removeIntercepts a w =
     w\<lparr>intercepts := foldl (\<lambda>acc t. acc - {t}) (intercepts w) (interceptTypes_arg a)\<rparr>"

fun some :: "('a \<Rightarrow> bool) \<Rightarrow> 'a list \<Rightarrow> bool" where
  "some p [] = False"
| "some p (x # xs) = (if p x then True else some p xs)"

definition hasIntercepts :: "InterceptType list option \<Rightarrow> RootInteraction \<Rightarrow> bool" where
  "hasIntercepts a w = some (\<lambda>t. t \<in> intercepts w) (interceptTypes_arg a)"

section \<open>Reading the interaction state\<close>

datatype error = TypeError | CallbackError string

text \<open>
  \<open>getState\<close> is \<open>store.get(KEY) || this.defaultState\<close>; its value is kept as a
  possibly-nil JavaScript value, so that the callers' \<open>currentState?.f\<close> and the plain
  \<open>getState().stateName\<close> of \<open>getCurrentStateName\<close> (a \<open>TypeError\<close> on nil) read as written.
\<close>

definition getState :: "RootInteraction \<Rightarrow> InteractionStateInfo option" where
  "getState w = (case store_state w of Some s \<Rightarrow> Some s | None \<Rightarrow> Some (defaultState w))"

definition resetState :: "RootInteraction \<Rightarrow> RootInteraction" where
  "resetState w = w\<lparr>store_state := Some (defaultState w)\<rparr>"

definition getInteractedCells :: "RootInteraction \<Rightarrow> S2CellType list" where
  "getInteractedCells w =
     (case getState w of
        None \<Rightarrow> []
      | Some currentState \<Rightarrow>
          (case interactedCells currentState of None \<Rightarrow> [] | Some cs \<Rightarrow> cs))"

definition getCurrentStateName :: "RootInteraction \<Rightarrow> error + InteractionStateName option" where
  "getCurrentStateName w =
     (case getState w of None \<Rightarrow> Inl TypeError | Some s \<Rightarrow> Inr (stateName s))"

definition isEqualStateName :: "InteractionStateName option \<Rightarrow> RootInteraction \<Rightarrow> error + bool" where
  "isEqualStateName n w =
     (case getCurrentStateName w of Inl e \<Rightarrow> Inl e | Inr cur \<Rightarrow> Inr (cur = n))"

definition isStateOf :: "InteractionStateName \<Rightarrow> RootInteraction \<Rightarrow> bool" where
  "isStateOf n w =
     (case getState w of None \<Rightarrow> False | Some currentState \<Rightarrow> stateName currentState = Some n)"

definition isSelectedState :: "RootInteraction \<Rightarrow> bool" where
  "isSelectedState w =
     some (\<lambda>n. isStateOf n w)
       [SELECTED, ALL_SELECTED, ROW_CELL_BRUSH_SELECTED, COL_CELL_BRUSH_SELECTED,
        DATA_CELL_BRUSH_SELECTED]"

definition isAllSelectedState :: "RootInteraction \<Rightarrow> bool" where
  "isAllSelectedState w = isStateOf ALL_SELECTED w"

definition isHoverFocusState :: "RootInteraction \<Rightarrow> bool" where
  "isHoverFocusState w = isStateOf HOVER_FOCUS w"

definition isHoverState :: "RootInteraction \<Rightarrow> bool" where
  "isHoverState w = isStateOf HOVER w"

text \<open>
  \<open>getCells(cellType?)\<close>: \<open>currentState?.cells || []\<close>, returned as it is for a nil
  argument and filtered by \<open>cellType.includes(cell.type)\<close> otherwise.
\<close>

definition getCells :: "CellType list option \<Rightarrow> RootInteraction \<Rightarrow> CellMeta list" where
  "getCells ts w =
     (let cs = (case getState w of
                  None \<Rightarrow> []
                | Some currentState \<Rightarrow> (case cells currentState of None \<Rightarrow> [] | Some l \<Rightarrow> l))
      in case ts of
           None \<Rightarrow> cs
         | Some cellTypes \<Rightarrow> filter (\<lambda>c. cm_type c \<in> set cellTypes) cs)"

text \<open>
  \<open>isActiveCell\<close>: \<open>find\<close> runs its callback on the recorded cells from the left; the
  callback reads \<open>cell.getMeta().id\<close>, a \<open>TypeError\<close> when \<open>getMeta()\<close> is nil, so with no
  recorded cell nothing is read. \<open>isSelectedCell\<close> is \<open>isSelectedState() && isActiveCell(cell)\<close>.
\<close>

definition isActiveCell :: "S2CellType \<Rightarrow> RootInteraction \<Rightarrow> error + bool" where
  "isActiveCell cell w =
     (case getCells None w of
        [] \<Rightarrow> Inr False
      | m # ms \<Rightarrow>
          (case getMeta cell of
             None \<Rightarrow> Inl TypeError
           | Some cm \<Rightarrow> Inr (find (\<lambda>meta. meta_id cm = cm_id meta) (m # ms) \<noteq> None)))"

definition isSelectedCell :: "S2CellType \<Rightarrow> RootInteraction \<Rightarrow> error + bool" where
  "isSelectedCell cell w = (if isSelectedState w then isActiveCell cell w else Inr False)"

section \<open>Options and the option getters\<close>

text \<open>
  An option that is \<open>boolean | Options\<close> and may be absent is \<open>None\<close> when nil, a
  boolean, or an options object. A field of an options object is \<open>None\<close> when missing.
  The getters build a fresh object; its fields stay JavaScript values (\<open>None\<close> would be
  \<open>undefined\<close>) so that what they hold can be stated.
\<close>

datatype 'a boolean_or = IsBoolean bool | IsObject 'a

record InteractionCellHighlightOptions =
  rowHeader :: "bool option"
  colHeader :: "bool option"
  currentRow :: "bool option"
  currentCol :: "bool option"

record BrushSelectionOptions =
  dataCell :: "bool option"
  rowCell :: "bool option"
  colCell :: "bool option"

record BrushSelectionInfo =
  dataCellBrushSelection :: "bool option"
  rowCellBrushSelection :: "bool option"
  colCellBrushSelection :: "bool option"

record CustomInteraction =
  ci_key :: string
  ci_interaction :: nat

record InteractionOptions =
  customInteractions :: "CustomInteraction list option"
  resize :: "unit boolean_or option"
  brushSelection :: "BrushSelectionOptions boolean_or option"
  multiSelection :: "bool option"
  rangeSelection :: "bool option"
  selectedCellMove :: "bool option"
  selectedCellHighlight :: "InteractionCellHighlightOptions boolean_or option"
  hoverHighlight :: "InteractionCellHighlightOptions boolean_or option"

text \<open>\<open>v ?? false\<close>, and the destructuring default \<open>f = false\<close>, on a missing field.\<close>

definition or_false :: "bool option \<Rightarrow> bool option" where
  "or_false v = (case v of None \<Rightarrow> Some False | Some b \<Rightarrow> Some b)"

definition getBrushSelectionInfo ::
  "BrushSelectionOptions boolean_or option \<Rightarrow> BrushSelectionInfo" where
  "getBrushSelectionInfo bs =
     (case bs of
        Some (IsBoolean b) \<Rightarrow>
          \<lparr>dataCellBrushSelection = Some b, rowCellBrushSelection = Some b,
           colCellBrushSelection = Some b\<rparr>
      | Some (IsObject opts) \<Rightarrow>
          \<lparr>dataCellBrushSelection = or_false (dataCell opts),
           rowCellBrushSelection = or_false (rowCell opts),
           colCellBrushSelection = or_false (colCell opts)\<rparr>
      | None \<Rightarrow>
          \<lparr>dataCellBrushSelection = or_false None, rowCellBrushSelection = or_false None,
           colCellBrushSelection = or_false None\<rparr>)"

definition getSelectedCellHighlight :: "InteractionOptions \<Rightarrow> InteractionCellHighlightOptions" where
  "getSelectedCellHighlight opts =
     (case selectedCellHighlight opts of
        Some (IsBoolean b) \<Rightarrow>
          \<lparr>rowHeader = Some b, colHeader = Some b, currentRow = Some b, currentCol = Some b\<rparr>
      | Some (IsObject h) \<Rightarrow>
          \<lparr>rowHeader = or_false (rowHeader h), colHeader = or_false (colHeader h),
           currentRow = or_false (currentRow h), currentCol = or_false (currentCol h)\<rparr>
      | None \<Rightarrow>
          \<lparr>rowHeader = or_false None, colHeader = or_false None,
           currentRow = or_false None, currentCol = or_false None\<rparr>)"

definition getHoverHighlight :: "InteractionOptions \<Rightarrow> InteractionCellHighlightOptions" where
  "getHoverHighlight opts =
     (case hoverHighlight opts of
        Some (IsBoolean b) \<Rightarrow>
          \<lparr>rowHeader = Some b, colHeader = Some b, currentRow = Some b, currentCol = Some b\<rparr>
      | Some (IsObject h) \<Rightarrow>
          \<lparr>rowHeader = or_false (rowHeader h), colHeader = or_false (colHeader h),
           currentRow = or_false (currentRow h), currentCol = or_false (currentCol h)\<rparr>
      | None \<Rightarrow>
          \<lparr>rowHeader = or_false None, colHeader = or_false None,
           currentRow = or_false None, currentCol = or_false None\<rparr>)"

definition getBrushSelection :: "InteractionOptions \<Rightarrow> BrushSelectionOptions" where
  "getBrushSelection opts =
     (case brushSelection opts of
        Some (IsBoolean b) \<Rightarrow> \<lparr>dataCell = Some b, rowCell = Some b, colCell = Some b\<rparr>
      | Some (IsObject o') \<Rightarrow>
          \<lparr>dataCell = or_false (dataCell o'), rowCell = or_false (rowCell o'),
           colCell = or_false (colCell o')\<rparr>
      | None \<Rightarrow>
          \<lparr>dataCell = or_false None, rowCell = or_false None, colCell = or_false None\<rparr>)"

section \<open>What \<open>RootInteraction\<close> calls outside these sources\<close>

text \<open>
  The sheet, its facet, and the helpers imported from \<open>utils/\<close> are not among the
  sources; they are parameters of the model. The facet is the rendered one (the code
  dereferences \<open>spreadsheet.facet\<close> without a test everywhere but in \<open>getActiveCells\<close>).
  \<open>util_clearState\<close> and \<open>util_setState\<close> are \<open>clearState\<close> and \<open>setState\<close> of
  \<open>utils/interaction/state-controller\<close>, which receive the sheet and may do anything to
  it: they are arbitrary functions of the state, \<open>util_clearState\<close> also returning its
  boolean. \<open>call_onUpdateCells\<close> runs the callback behind a handle, given the \<open>update\<close>
  closure. \<open>InteractionName_key\<close> gives the string of each member of the enum
  \<open>InteractionName\<close>.
\<close>

datatype InteractionName =
    Name_CORNER_CELL_CLICK
  | Name_DATA_CELL_CLICK
  | Name_ROW_COLUMN_CLICK
  | Name_ROW_TEXT_CLICK
  | Name_MERGED_CELLS_CLICK
  | Name_HOVER
  | Name_DATA_CELL_BRUSH_SELECTION
  | Name_ROW_CELL_BRUSH_SELECTION
  | Name_COL_CELL_BRUSH_SELECTION
  | Name_COL_ROW_RESIZE
  | Name_DATA_CELL_MULTI_SELECTION
  | Name_RANGE_SELECTION
  | Name_SELECTED_CELL_MOVE

record Env =
  facet_getCells :: "S2CellType list"
  facet_getDataCells :: "S2CellType list"
  facet_getHeaderCells :: "string list \<Rightarrow> S2CellType list"
  facet_getCellChildrenNodes :: "S2CellType \<Rightarrow> ViewMeta list"
  facet_hRowScrollBar :: bool
  facet_hScrollBar :: bool
  facet_vScrollBar :: bool
  facet_getScrollOffset :: "int \<times> int \<times> int"
  isHierarchyTreeType :: bool
  isMobile :: bool
  options_interaction :: InteractionOptions
  InteractionName_key :: "InteractionName \<Rightarrow> string"
  getCellMeta :: "S2CellType \<Rightarrow> CellMeta"
  customMerge :: "ScrollOffsetConfig \<Rightarrow> ScrollOffsetConfig \<Rightarrow> ScrollOffsetConfig"
  util_clearState :: "RootInteraction \<Rightarrow> bool \<times> RootInteraction"
  util_setState :: "InteractionStateInfo \<Rightarrow> RootInteraction \<Rightarrow> RootInteraction"
  call_onUpdateCells ::
    "nat \<Rightarrow> (RootInteraction \<Rightarrow> RootInteraction) \<Rightarrow> RootInteraction \<Rightarrow> RootInteraction"

section \<open>The methods that change the state\<close>

definition draw :: "RootInteraction \<Rightarrow> RootInteraction" where
  "draw w = w\<lparr>renders := Suc (renders w)\<rparr>"

definition hideTooltip :: "RootInteraction \<Rightarrow> RootInteraction" where
  "hideTooltip w = w\<lparr>hideTooltipCalls := Suc (hideTooltipCalls w)\<rparr>"

definition emit :: "S2Event_emitted \<Rightarrow> RootInteraction \<Rightarrow> RootInteraction" where
  "emit e w = w\<lparr>emitted := emitted w @ [e]\<rparr>"

text \<open>\<open>clearHoverTimer\<close> is \<open>clearTimeout(this.hoverTimer)\<close>; the field keeps its value.\<close>

definition clearHoverTimer :: "RootInteraction \<Rightarrow> RootInteraction" where
  "clearHoverTimer w = w\<lparr>clearedTimeouts := clearedTimeouts w @ [hoverTimer w]\<rparr>"

definition setHoverTimer :: "nat \<Rightarrow> RootInteraction \<Rightarrow> RootInteraction" where
  "setHoverTimer timer w = w\<lparr>hoverTimer := Some timer\<rparr>"

definition getHoverTimer :: "RootInteraction \<Rightarrow> nat option" where
  "getHoverTimer w = hoverTimer w"

definition setState :: "Env \<Rightarrow> InteractionStateInfo \<Rightarrow> RootInteraction \<Rightarrow> RootInteraction" where
  "setState env interactionStateInfo w = util_setState env interactionStateInfo w"


definition clearState :: "Env \<Rightarrow> RootInteraction \<Rightarrow> RootInteraction" where
  "clearState env w =
     (case util_clearState env w of (cleared, w') \<Rightarrow> if cleared then draw w' else w')"

definition reset :: "Env \<Rightarrow> RootInteraction \<Rightarrow> RootInteraction" where
  "reset env w = hideTooltip ((clearHoverTimer (clearState env w))\<lparr>intercepts := {}\<rparr>)"

definition updateCells :: "S2CellType list option \<Rightarrow> RootInteraction \<Rightarrow> RootInteraction" where
  "updateCells cs w =
     w\<lparr>updated := updated w @ (case cs of None \<Rightarrow> [] | Some l \<Rightarrow> l)\<rparr>"

definition updateAllDataCells :: "Env \<Rightarrow> RootInteraction \<Rightarrow> RootInteraction" where
  "updateAllDataCells env w = updateCells (Some (facet_getDataCells env)) w"

definition clearStyleIndependent :: "Env \<Rightarrow> RootInteraction \<Rightarrow> RootInteraction" where
  "clearStyleIndependent env w =
     (if \<not> isSelectedState w \<and> \<not> isHoverState w \<and> \<not> isAllSelectedState w then w
      else w\<lparr>hiddenShapes := hiddenShapes w @ facet_getDataCells env\<rparr>)"

text \<open>
  \<open>getActiveCells\<close>: for each recorded id, in the order of the ids, the first facet
  cell whose meta has that id; ids without a cell are dropped by \<open>filter(Boolean)\<close>.
\<close>

definition getActiveCells :: "Env \<Rightarrow> RootInteraction \<Rightarrow> S2CellType list" where
  "getActiveCells env w =
     (let ids = map cm_id (getCells None w);
          allCells = facet_getCells env
      in List.map_filter
           (\<lambda>i. find (\<lambda>cell. case getMeta cell of None \<Rightarrow> False | Some m \<Rightarrow> meta_id m = i)
                  allCells)
           ids)"

text \<open>
  \<open>changeState\<close>. The default \<open>cells = []\<close> and \<open>isEmpty(cells)\<close> make a missing list
  count as empty. In the guarded case \<open>force\<close> decides between returning and calling
  \<open>interaction.changeState\<close> once more, where \<open>interaction\<close> is the sheet's
  \<open>RootInteraction\<close>, this instance. \<open>changeState_apply\<close> is the code below the guard.
\<close>

definition cells_or_empty :: "InteractionStateInfo \<Rightarrow> CellMeta list" where
  "cells_or_empty info = (case cells info of None \<Rightarrow> [] | Some l \<Rightarrow> l)"

definition changeState_guard :: "InteractionStateInfo \<Rightarrow> bool" where
  "changeState_guard info \<longleftrightarrow> cells_or_empty info = [] \<and> stateName info = Some SELECTED"

definition changeState_apply ::
  "Env \<Rightarrow> InteractionStateInfo \<Rightarrow> RootInteraction \<Rightarrow> error + RootInteraction" where
  "changeState_apply env interactionStateInfo w =
     (case getCurrentStateName w of
        Inl e \<Rightarrow> Inl e
      | Inr current \<Rightarrow>
          (let w1 = (if current = Some ALL_SELECTED then clearStyleIndependent env w else w);
               w2 = clearState env w1;
               w3 = setState env interactionStateInfo w2;
               w4 = (case onUpdateCells interactionStateInfo of
                       Some cb \<Rightarrow> call_onUpdateCells env cb (updateAllDataCells env) w3
                     | None \<Rightarrow> updateAllDataCells env w3)
           in Inr (draw w4)))"

function changeState ::
  "Env \<Rightarrow> InteractionStateInfo \<Rightarrow> RootInteraction \<Rightarrow> error + RootInteraction" where
  "changeState env interactionStateInfo w =
     (if changeState_guard interactionStateInfo then
        (if force interactionStateInfo = Some True then
           changeState env
             \<lparr>stateName = Some UNSELECTED, cells = Some [], nodes = None,
              interactedCells = None, force = None, onUpdateCells = None\<rparr> w
         else Inr w)
      else changeState_apply env interactionStateInfo w)"
  by pat_completeness auto
termination
  by (relation "measure (\<lambda>(env, info, w). if changeState_guard info then 1 else 0)")
     (auto simp: changeState_guard_def)

declare changeState.simps [simp del]

text \<open>
  \<open>highlightNodes(nodes = [])\<close> calls \<open>updateByState(SELECTED, \<dots>)\<close> on the cell a node
  belongs to, for the nodes that have one.
\<close>

definition highlightNodes :: "ViewMeta list option \<Rightarrow> RootInteraction \<Rightarrow> RootInteraction" where
  "highlightNodes ns w =
     w\<lparr>updatedByState := updatedByState w @
          List.map_filter (\<lambda>node. map_option (\<lambda>c. (c, SELECTED)) (belongsCell node))
            (case ns of None \<Rightarrow> [] | Some l \<Rightarrow> l)\<rparr>"

definition scrollTo :: "Env \<Rightarrow> ScrollOffsetConfig \<Rightarrow> RootInteraction \<Rightarrow> RootInteraction" where
  "scrollTo env offsetConfig w =
     (case facet_getScrollOffset env of
        (scrollX, scrollY, rowHeaderScrollX) \<Rightarrow>
          (let config =
                 \<lparr>offsetX = Some \<lparr>offset_value = Some scrollX, animate = True\<rparr>,
                  offsetY = Some \<lparr>offset_value = Some scrollY, animate = True\<rparr>,
                  rowHeaderOffsetX = Some \<lparr>offset_value = Some rowHeaderScrollX, animate = True\<rparr>\<rparr>
           in w\<lparr>scrollOffsetUpdates :=
                  scrollOffsetUpdates w @ [customMerge env config offsetConfig]\<rparr>))"

definition scrollToCellByMeta ::
  "Env \<Rightarrow> ViewMeta option \<Rightarrow> bool \<Rightarrow> RootInteraction \<Rightarrow> RootInteraction" where
  "scrollToCellByMeta env meta anim w =
     (case meta of
        None \<Rightarrow> w
      | Some m \<Rightarrow>
          if \<not> facet_hRowScrollBar env \<and> \<not> facet_hScrollBar env \<and> \<not> facet_vScrollBar env then w
          else scrollTo env
                 \<lparr>offsetX = Some \<lparr>offset_value = meta_x m, animate = anim\<rparr>,
                  offsetY = Some \<lparr>offset_value = meta_y m, animate = anim\<rparr>,
                  rowHeaderOffsetX = Some \<lparr>offset_value = meta_x m, animate = anim\<rparr>\<rparr> w)"

definition scrollToCell :: "Env \<Rightarrow> S2CellType \<Rightarrow> bool \<Rightarrow> RootInteraction \<Rightarrow> RootInteraction" where
  "scrollToCell env cell anim w = scrollToCellByMeta env (getMeta cell) anim w"

text \<open>\<open>String.prototype.includes\<close>: the argument occurs somewhere in the string.\<close>

fun string_includes :: "string \<Rightarrow> string \<Rightarrow> bool" where
  "string_includes [] sub = (sub = [])"
| "string_includes (c # cs) sub =
     (take (length sub) (c # cs) = sub \<or> string_includes cs sub)"

text \<open>
  \<open>changeCell\<close>. \<open>isEmpty(cell)\<close> holds of a missing cell only: a cell object carries
  its own fields. The result is the returned value, \<open>None\<close> for the bare \<open>return\<close>.
  The method is written in three parts: what it selects (\<open>changeCell_selection\<close>), what it
  does with a non-empty selection (\<open>changeCell_select\<close>), and \<open>changeCell\<close> itself
  with the guards and the branch of the empty selection.
\<close>

record ChangeCellOptions =
  opt_cell :: "S2CellType option"
  opt_stateName :: "InteractionStateName option"
  opt_isMultiSelection :: "bool option"
  opt_scrollIntoView :: "bool option"

definition nodes_or_empty :: "InteractionStateInfo option \<Rightarrow> ViewMeta list" where
  "nodes_or_empty st =
     (case st of None \<Rightarrow> [] | Some s \<Rightarrow> (case nodes s of None \<Rightarrow> [] | Some l \<Rightarrow> l))"

definition lastCells_or_empty :: "InteractionStateInfo option \<Rightarrow> CellMeta list" where
  "lastCells_or_empty st =
     (case st of None \<Rightarrow> [] | Some s \<Rightarrow> (case cells s of None \<Rightarrow> [] | Some l \<Rightarrow> l))"

text \<open>
  Lines 530 to 548: the cells and child nodes that the call selects. An already
  selected cell contributes nothing; under multi-selection the cells and nodes of the
  last state are kept, without those of the cell when it was selected.
\<close>

definition changeCell_selection ::
  "Env \<Rightarrow> ChangeCellOptions \<Rightarrow> S2CellType \<Rightarrow> ViewMeta \<Rightarrow> bool \<Rightarrow> RootInteraction
     \<Rightarrow> CellMeta list \<times> ViewMeta list" where
  "changeCell_selection env options cell meta isSelected w =
     (let lastState = getState w;
          isMultiSelected = (opt_isMultiSelection options = Some True \<and> isSelectedState w);
          childrenNodes0 = (if isSelected then [] else facet_getCellChildrenNodes env cell);
          selectedCells0 = (if isSelected then [] else [getCellMeta env cell]);
          selectedCells1 =
            (if isMultiSelected then lastCells_or_empty lastState @ selectedCells0
             else selectedCells0);
          childrenNodes1 =
            (if isMultiSelected then nodes_or_empty lastState @ childrenNodes0
             else childrenNodes0);
          selectedCells =
            (if isMultiSelected \<and> isSelected
             then filter (\<lambda>c. cm_id c \<noteq> meta_id meta) selectedCells1
             else selectedCells1);
          childrenNodes =
            (if isMultiSelected \<and> isSelected
             then filter (\<lambda>node. \<not> string_includes (meta_id node) (meta_id meta)) childrenNodes1
             else childrenNodes1)
      in (selectedCells, childrenNodes))"

text \<open>
  Lines 557 to 584, reached with a non-empty selection: the state change, the updates
  of the header cells, the highlight of the child nodes, the scroll, the event.
\<close>

definition changeCell_select ::
  "Env \<Rightarrow> ChangeCellOptions \<Rightarrow> S2CellType \<Rightarrow> ViewMeta \<Rightarrow> CellMeta list \<Rightarrow> ViewMeta list
     \<Rightarrow> RootInteraction \<Rightarrow> error + (bool option \<times> RootInteraction)" where
  "changeCell_select env options cell meta selectedCells childrenNodes w =
     (let stateName' = (case opt_stateName options of None \<Rightarrow> SELECTED | Some n \<Rightarrow> n);
          scrollIntoView = (case opt_scrollIntoView options of None \<Rightarrow> True | Some b \<Rightarrow> b);
          isHierarchyTree = isHierarchyTreeType env;
          isColCell = (cellType cell = COL_CELL);
          nodes' = (if childrenNodes = [] then [meta] else childrenNodes)
      in case changeState env
                \<lparr>stateName = Some stateName', cells = Some selectedCells, nodes = Some nodes',
                 interactedCells = None, force = None, onUpdateCells = None\<rparr> w of
           Inl e \<Rightarrow> Inl e
         | Inr w3 \<Rightarrow>
            (let selectedCellIds = map cm_id selectedCells;
                 w4 = updateCells (Some (facet_getHeaderCells env selectedCellIds)) w3;
                 w5 = (if \<not> isHierarchyTree \<or> isColCell
                       then highlightNodes (Some childrenNodes) w4 else w4);
                 w6 = (if scrollIntoView then scrollToCell env cell True w5 else w5)
             in Inr (Some True, emit (GLOBAL_SELECTED (getActiveCells env w6)) w6)))"

definition changeCell ::
  "Env \<Rightarrow> ChangeCellOptions \<Rightarrow> RootInteraction \<Rightarrow> error + (bool option \<times> RootInteraction)" where
  "changeCell env options w =
     (case opt_cell options of
        None \<Rightarrow> Inr (None, w)
      | Some cell \<Rightarrow>
         (case getMeta cell of
            None \<Rightarrow> Inr (None, w)
          | Some meta \<Rightarrow>
             if meta_x meta = None then Inr (None, w)
             else
               (let w1 = addIntercepts (Some [Intercept_HOVER]) w
                in case isSelectedCell cell w1 of
                     Inl e \<Rightarrow> Inl e
                   | Inr isSelected \<Rightarrow>
                      (case changeCell_selection env options cell meta isSelected w1 of
                         (selectedCells, childrenNodes) \<Rightarrow>
                           if selectedCells = [] then
                             (let w2 = reset env w1
                              in Inr (None, emit (GLOBAL_SELECTED (getActiveCells env w2)) w2))
                           else changeCell_select env options cell meta selectedCells
                                  childrenNodes w1))))"

definition selectCell :: "Env \<Rightarrow> S2CellType \<Rightarrow> RootInteraction \<Rightarrow> error + RootInteraction" where
  "selectCell env cell w =
     map_sum id snd
       (changeCell env
          \<lparr>opt_cell = Some cell, opt_stateName = Some SELECTED, opt_isMultiSelection = None,
           opt_scrollIntoView = None\<rparr> w)"

definition highlightCell :: "Env \<Rightarrow> S2CellType \<Rightarrow> RootInteraction \<Rightarrow> error + RootInteraction" where
  "highlightCell env cell w =
     map_sum id snd
       (changeCell env
          \<lparr>opt_cell = Some cell, opt_stateName = Some HOVER, opt_isMultiSelection = None,
           opt_scrollIntoView = None\<rparr> w)"


section \<open>Construction, the \<open>visibilitychange\<close> listener and \<open>destroy\<close>\<close>

text \<open>
  \<open>getDefaultInteractions\<close> gives each default handler a key, a class and, for some, an
  \<open>enable\<close> value; \<open>registerInteractions\<close> registers an entry unless
  \<open>enable !== false\<close> fails. \<open>enable\<close> is \<open>!isMobile() && v\<close>: \<open>false\<close> on a mobile
  device, the value \<open>v\<close> of the option otherwise, which need not be a boolean.
\<close>

datatype js_enable = JUndefined | JBoolean bool | JObject

definition not_mobile_and :: "bool \<Rightarrow> js_enable \<Rightarrow> js_enable" where
  "not_mobile_and mobile v = (if mobile then JBoolean False else v)"

definition js_of_bool_option :: "bool option \<Rightarrow> js_enable" where
  "js_of_bool_option v = (case v of None \<Rightarrow> JUndefined | Some b \<Rightarrow> JBoolean b)"

definition js_of_boolean_or :: "'a boolean_or option \<Rightarrow> js_enable" where
  "js_of_boolean_or v =
     (case v of None \<Rightarrow> JUndefined | Some (IsBoolean b) \<Rightarrow> JBoolean b | Some (IsObject _) \<Rightarrow> JObject)"

definition getDefaultInteractions :: "Env \<Rightarrow> (string \<times> BaseEvent \<times> js_enable) list" where
  "getDefaultInteractions env =
     (let opts = options_interaction env;
          info = getBrushSelectionInfo (brushSelection opts);
          key = InteractionName_key env;
          mobile = isMobile env
      in [(key Name_CORNER_CELL_CLICK, CornerCellClick, JUndefined),
          (key Name_DATA_CELL_CLICK, DataCellClick, JUndefined),
          (key Name_ROW_COLUMN_CLICK, RowColumnClick, JUndefined),
          (key Name_ROW_TEXT_CLICK, RowTextClick, JUndefined),
          (key Name_MERGED_CELLS_CLICK, MergedCellClick, JUndefined),
          (key Name_HOVER, HoverEvent, JBoolean (\<not> mobile)),
          (key Name_DATA_CELL_BRUSH_SELECTION, DataCellBrushSelection,
             not_mobile_and mobile (js_of_bool_option (dataCellBrushSelection info))),
          (key Name_ROW_CELL_BRUSH_SELECTION, RowCellBrushSelection,
             not_mobile_and mobile (js_of_bool_option (rowCellBrushSelection info))),
          (key Name_COL_CELL_BRUSH_SELECTION, ColCellBrushSelection,
             not_mobile_and mobile (js_of_bool_option (colCellBrushSelection info))),
          (key Name_COL_ROW_RESIZE, RowColumnResize,
             not_mobile_and mobile (js_of_boolean_or (resize opts))),
          (key Name_DATA_CELL_MULTI_SELECTION, DataCellMultiSelection,
             not_mobile_and mobile (js_of_bool_option (multiSelection opts))),
          (key Name_RANGE_SELECTION, RangeSelection,
             not_mobile_and mobile (js_of_bool_option (rangeSelection opts))),
          (key Name_SELECTED_CELL_MOVE, SelectedCellMove,
             not_mobile_and mobile (js_of_bool_option (selectedCellMove opts)))])"

text \<open>\<open>Map.prototype.set\<close>: a known key keeps its place, a new key goes to the end.\<close>

fun map_set :: "'k \<Rightarrow> 'v \<Rightarrow> ('k \<times> 'v) list \<Rightarrow> ('k \<times> 'v) list" where
  "map_set k v [] = [(k, v)]"
| "map_set k v ((k', v') # m) = (if k' = k then (k, v) # m else (k', v') # map_set k v m)"

definition registerInteractions :: "Env \<Rightarrow> RootInteraction \<Rightarrow> RootInteraction" where
  "registerInteractions env w =
     (let defaults =
            foldl (\<lambda>m (key, interaction, enable).
                     if enable \<noteq> JBoolean False then map_set key interaction m else m)
              [] (getDefaultInteractions env);
          registered =
            (case customInteractions (options_interaction env) of
               None \<Rightarrow> defaults
             | Some custom \<Rightarrow>
                 if custom = [] then defaults
                 else foldl (\<lambda>m c. map_set (ci_key c) (CustomInteractionClass (ci_interaction c)) m)
                        defaults custom)
      in w\<lparr>interactions := registered\<rparr>)"

definition registerEventController :: "RootInteraction \<Rightarrow> RootInteraction" where
  "registerEventController w = w\<lparr>eventControllers := Suc (eventControllers w)\<rparr>"

text \<open>
  \<open>window\<close> holds a listener at most once for an event type: \<open>addEventListener\<close> does
  nothing for a callback that is already registered, \<open>removeEventListener\<close> takes out the
  registration of exactly that callback. The callback of this instance is the arrow
  function stored in its field \<open>onTriggerInteractionsResetEffect\<close>; every other
  callback on \<open>window\<close> is foreign and does not touch the instance.
\<close>

definition addEventListener :: "listener \<Rightarrow> RootInteraction \<Rightarrow> RootInteraction" where
  "addEventListener l w =
     (if l \<in> set (visibilitychangeListeners w) then w
      else w\<lparr>visibilitychangeListeners := visibilitychangeListeners w @ [l]\<rparr>)"

definition removeEventListener :: "listener \<Rightarrow> RootInteraction \<Rightarrow> RootInteraction" where
  "removeEventListener l w =
     w\<lparr>visibilitychangeListeners := removeAll l (visibilitychangeListeners w)\<rparr>"

definition onTriggerInteractionsResetEffect :: "RootInteraction \<Rightarrow> RootInteraction" where
  "onTriggerInteractionsResetEffect w =
     w\<lparr>interactionResets := interactionResets w @ interactions w\<rparr>"

definition handle_visibilitychange :: "listener \<Rightarrow> RootInteraction \<Rightarrow> RootInteraction" where
  "handle_visibilitychange l w =
     (case l of
        OnTriggerInteractionsResetEffect \<Rightarrow> onTriggerInteractionsResetEffect w
      | ForeignListener _ \<Rightarrow> w)"

definition dispatch_visibilitychange :: "RootInteraction \<Rightarrow> RootInteraction" where
  "dispatch_visibilitychange w =
     foldl (\<lambda>acc l. handle_visibilitychange l acc) w (visibilitychangeListeners w)"

text \<open>
  The constructor, run on the surroundings \<open>w0\<close> of the new instance (the store of the
  sheet, the listeners already on \<open>window\<close>, the calls recorded so far): the field
  initialisers first, then the body.
\<close>

definition initial_defaultState :: InteractionStateInfo where
  "initial_defaultState =
     \<lparr>stateName = None, cells = Some [], nodes = None, interactedCells = None,
      force = Some False, onUpdateCells = None\<rparr>"

definition constructor :: "Env \<Rightarrow> RootInteraction \<Rightarrow> RootInteraction" where
  "constructor env w0 =
     (let w1 = w0\<lparr>interactions := [], intercepts := {}, hoverTimer := None,
                  defaultState := initial_defaultState\<rparr>;
          w2 = registerEventController w1;
          w3 = registerInteractions env w2
      in addEventListener OnTriggerInteractionsResetEffect w3)"

definition destroy :: "RootInteraction \<Rightarrow> RootInteraction" where
  "destroy w =
     (let w1 = w\<lparr>interactions := []\<rparr>;
          w2 = w1\<lparr>intercepts := {}\<rparr>;
          w3 = w2\<lparr>eventControllerClears := Suc (eventControllerClears w2)\<rparr>;
          w4 = clearHoverTimer w3;
          w5 = resetState w4
      in removeEventListener OnTriggerInteractionsResetEffect w5)"

section \<open>\<open>ColumnTextClick\<close>\<close>

text \<open>
  \<open>isLinkFieldText\<close> and \<open>getCellAppendInfo\<close> are methods of \<open>BaseEvent\<close>, which is not
  among the sources: they are parameters, functions of the event target.
  \<open>getCellAppendInfo(target).cellData\<close> may be missing (the code asserts \<open>cellData!\<close>
  and reads \<open>cellData?.rowIndex\<close>); destructuring a missing \<open>cellData\<close> is a
  \<open>TypeError\<close>. A data record is an object, a finite map from property names to values;
  \<open>Object.assign(t, s)\<close> copies the properties of \<open>s\<close> over those of \<open>t\<close> and skips a nil
  \<open>s\<close>.
\<close>

datatype js_value = JNumber int | JString string | JBool bool | JUndef

record CellData =
  valueField :: "string option"
  cd_rowIndex :: "int option"
  cd_data :: "(string \<rightharpoonup> js_value) option"

record LinkFieldJump =
  lf_cellData :: CellData
  lf_field :: "string option"
  lf_record :: "string \<rightharpoonup> js_value"

datatype S2Event_link = GLOBAL_LINK_FIELD_JUMP LinkFieldJump

record 't BaseEvent_methods =
  isLinkFieldText :: "'t \<Rightarrow> bool"
  getCellAppendInfo_cellData :: "'t \<Rightarrow> CellData option"

definition Object_assign ::
  "(string \<rightharpoonup> js_value) \<Rightarrow> (string \<rightharpoonup> js_value) option \<Rightarrow> (string \<rightharpoonup> js_value)" where
  "Object_assign t s = (case s of None \<Rightarrow> t | Some src \<Rightarrow> t ++ src)"

definition js_of_number :: "int option \<Rightarrow> js_value" where
  "js_of_number n = (case n of None \<Rightarrow> JUndef | Some i \<Rightarrow> JNumber i)"

definition emitLinkFieldClickEvent ::
  "'t BaseEvent_methods \<Rightarrow> 't \<Rightarrow> error + S2Event_link list" where
  "emitLinkFieldClickEvent base target =
     (case getCellAppendInfo_cellData base target of
        None \<Rightarrow> Inl TypeError
      | Some cellData \<Rightarrow>
          Inr [GLOBAL_LINK_FIELD_JUMP
                 \<lparr>lf_cellData = cellData,
                  lf_field = valueField cellData,
                  lf_record =
                    Object_assign [''rowIndex'' \<mapsto> js_of_number (cd_rowIndex cellData)]
                      (cd_data cellData)\<rparr>])"

text \<open>The handler bound to \<open>COL_CELL_CLICK\<close>; the result lists the events it emits.\<close>

definition on_COL_CELL_CLICK :: "'t BaseEvent_methods \<Rightarrow> 't \<Rightarrow> error + S2Event_link list" where
  "on_COL_CELL_CLICK base target =
     (if isLinkFieldText base target then emitLinkFieldClickEvent base target else Inr [])"

section \<open>\<open>handleLayoutHook\<close>\<close>

text \<open>
  \<open>facetCfg?.layout\<close> is \<open>undefined\<close> for a nil \<open>facetCfg\<close> and for a missing field. The
  callback is the caller's code: it is a function from the world to an error or a new
  world, and the hook returns what it returns. The first component of the result lists
  the calls made, with their arguments.
\<close>

record ('sheet, 'node, 'w) SpreadsheetFacetCfg =
  spreadsheet :: 'sheet
  layout :: "('sheet \<Rightarrow> 'node \<Rightarrow> 'node \<Rightarrow> 'w \<Rightarrow> error + 'w) option"

definition handleLayoutHook ::
  "('sheet, 'node, 'w) SpreadsheetFacetCfg option \<Rightarrow> 'node \<Rightarrow> 'node \<Rightarrow> 'w
     \<Rightarrow> ('sheet \<times> 'node \<times> 'node) list \<times> (error + 'w)" where
  "handleLayoutHook facetCfg rowNode colNode w =
     (case facetCfg of
        None \<Rightarrow> ([], Inr w)
      | Some cfg \<Rightarrow>
          (case layout cfg of
             None \<Rightarrow> ([], Inr w)
           | Some f \<Rightarrow>
               ([(spreadsheet cfg, rowNode, colNode)], f (spreadsheet cfg) rowNode colNode w)))"

section \<open>The state controller, and a small sheet to evaluate on\<close>

text \<open>
  Modelled from the spec: \<open>clearState\<close> of \<open>utils/interaction/state-controller\<close>, which
  \<open>RootInteraction\<close> imports and which is not among the sources. All that is said of it
  is that it clears the interaction state; its boolean tells the caller whether there
  was anything to clear (the caller redraws on \<open>true\<close>).
\<close>

definition state_controller_clearState :: "RootInteraction \<Rightarrow> bool \<times> RootInteraction" where
  "state_controller_clearState w =
     (if getInteractedCells w = [] \<and> getCells None w = [] then (False, w)
      else (True, resetState w))"

text \<open>
  Modelled from the spec: \<open>setState\<close> of \<open>utils/interaction/state-controller\<close>, not
  among the sources either. All that is said of it is that it sets the interaction
  state: it stores the state it is given.
\<close>

definition state_controller_setState ::
  "InteractionStateInfo \<Rightarrow> RootInteraction \<Rightarrow> RootInteraction" where
  "state_controller_setState interactionStateInfo w =
     w\<lparr>store_state := Some interactionStateInfo\<rparr>"

definition example_cell :: "string \<Rightarrow> CellType \<Rightarrow> S2CellType" where
  "example_cell i t =
     \<lparr>cell_ref = length i,
      getMeta = Some \<lparr>meta_id = i, meta_x = Some 0, meta_y = Some 0, belongsCell = None\<rparr>,
      cellType = t\<rparr>"

definition example_options :: InteractionOptions where
  "example_options =
     \<lparr>customInteractions = None, resize = None, brushSelection = Some (IsBoolean True),
      multiSelection = Some True, rangeSelection = Some False, selectedCellMove = None,
      selectedCellHighlight = Some (IsObject \<lparr>rowHeader = Some True, colHeader = None,
        currentRow = None, currentCol = Some False\<rparr>),
      hoverHighlight = None\<rparr>"

definition example_env :: Env where
  "example_env =
     \<lparr>facet_getCells = [example_cell ''a'' ROW_CELL, example_cell ''bb'' DATA_CELL],
      facet_getDataCells = [example_cell ''bb'' DATA_CELL],
      facet_getHeaderCells =
        (\<lambda>ids. if ''a'' \<in> set ids then [example_cell ''a'' ROW_CELL] else []),
      facet_getCellChildrenNodes = (\<lambda>c. []),
      facet_hRowScrollBar = False, facet_hScrollBar = False, facet_vScrollBar = True,
      facet_getScrollOffset = (0, 0, 0),
      isHierarchyTreeType = False,
      isMobile = False,
      options_interaction = example_options,
      InteractionName_key = (\<lambda>n. case n of
          Name_CORNER_CELL_CLICK \<Rightarrow> ''cornerCellClick''
        | Name_DATA_CELL_CLICK \<Rightarrow> ''dataCellClick''
        | Name_ROW_COLUMN_CLICK \<Rightarrow> ''rowColumnClick''
        | Name_ROW_TEXT_CLICK \<Rightarrow> ''rowTextClick''
        | Name_MERGED_CELLS_CLICK \<Rightarrow> ''mergedCellsClick''
        | Name_HOVER \<Rightarrow> ''hover''
        | Name_DATA_CELL_BRUSH_SELECTION \<Rightarrow> ''dataCellBrushSelection''
        | Name_ROW_CELL_BRUSH_SELECTION \<Rightarrow> ''rowCellBrushSelection''
        | Name_COL_CELL_BRUSH_SELECTION \<Rightarrow> ''colCellBrushSelection''
        | Name_COL_ROW_RESIZE \<Rightarrow> ''rowColResize''
        | Name_DATA_CELL_MULTI_SELECTION \<Rightarrow> ''dataCellMultiSelection''
        | Name_RANGE_SELECTION \<Rightarrow> ''rangeSelection''
        | Name_SELECTED_CELL_MOVE \<Rightarrow> ''selectedCellMove''),
      getCellMeta = (\<lambda>c. \<lparr>cm_id = (case getMeta c of None \<Rightarrow> [] | Some m \<Rightarrow> meta_id m),
                         colIndex = 0, rowIndex = 0, cm_type = cellType c\<rparr>),
      customMerge = (\<lambda>a b. \<lparr>offsetX = (case offsetX b of None \<Rightarrow> offsetX a | Some v \<Rightarrow> Some v),
                            offsetY = (case offsetY b of None \<Rightarrow> offsetY a | Some v \<Rightarrow> Some v),
                            rowHeaderOffsetX = (case rowHeaderOffsetX b of None \<Rightarrow> rowHeaderOffsetX a
                                                | Some v \<Rightarrow> Some v)\<rparr>),
      util_clearState = state_controller_clearState,
      util_setState = state_controller_setState,
      call_onUpdateCells = (\<lambda>cb update w. update w)\<rparr>"

definition example_surroundings :: RootInteraction where
  "example_surroundings =
     \<lparr>store_state = None, defaultState = initial_defaultState, intercepts = {},
      hoverTimer = None, interactions = [], clearedTimeouts = [], emitted = [], renders = 0,
      updated = [], hiddenShapes = [], updatedByState = [], hideTooltipCalls = 0,
      scrollOffsetUpdates = [], interactionResets = [], eventControllers = 0,
      eventControllerClears = 0, visibilitychangeListeners = [ForeignListener 7]\<rparr>"

definition example_selected :: RootInteraction where
  "example_selected =
     example_surroundings
       \<lparr>store_state := Some \<lparr>stateName = Some SELECTED,
           cells = Some [\<lparr>cm_id = ''a'', colIndex = 0, rowIndex = 0, cm_type = ROW_CELL\<rparr>],
           nodes = None, interactedCells = None, force = None, onUpdateCells = None\<rparr>,
        hoverTimer := Some 3,
        intercepts := {OtherIntercept ''click''}\<rparr>"

definition example_click :: "S2CellType \<Rightarrow> ChangeCellOptions" where
  "example_click cell =
     \<lparr>opt_cell = Some cell, opt_stateName = None, opt_isMultiSelection = None,
      opt_scrollIntoView = None\<rparr>"

definition example_cellData :: CellData where
  "example_cellData =
     \<lparr>valueField = Some ''city'', cd_rowIndex = Some 2,
      cd_data = Some [''rowIndex'' \<mapsto> JNumber 5, ''city'' \<mapsto> JString ''Hangzhou'']\<rparr>"

definition example_base :: "bool BaseEvent_methods" where
  "example_base =
     \<lparr>isLinkFieldText = (\<lambda>target. target),
      getCellAppendInfo_cellData = (\<lambda>target. Some example_cellData)\<rparr>"

section \<open>Auxiliary facts\<close>

lemma some_iff: "some p xs \<longleftrightarrow> (\<exists>x \<in> set xs. p x)"
  by (induction xs) auto

lemma foldl_insert: "foldl (\<lambda>acc t. insert t acc) S l = S \<union> set l"
  by (induction l arbitrary: S) auto

lemma foldl_delete: "foldl (\<lambda>acc t. acc - {t}) S l = S - set l"
  by (induction l arbitrary: S) auto

lemma getState_Some: "getState w = Some (case store_state w of Some s \<Rightarrow> s | None \<Rightarrow> defaultState w)"
  by (simp add: getState_def split: option.splits)

lemma getCurrentStateName_Inr:
  "getCurrentStateName w =
     Inr (stateName (case store_state w of Some s \<Rightarrow> s | None \<Rightarrow> defaultState w))"
  by (simp add: getCurrentStateName_def getState_Some)

lemma find_not_None: "find P xs \<noteq> None \<longleftrightarrow> (\<exists>x \<in> set xs. P x)"
  by (induction xs) auto

lemma isActiveCell_True:
  "isActiveCell cell w = Inr True \<longleftrightarrow>
     (\<exists>m. getMeta cell = Some m \<and> (\<exists>c \<in> set (getCells None w). cm_id c = meta_id m))"
proof (cases "getCells None w")
  case Nil
  then show ?thesis by (simp add: isActiveCell_def)
next
  case (Cons c cs)
  show ?thesis
  proof (cases "getMeta cell")
    case None
    then show ?thesis by (simp add: isActiveCell_def Cons)
  next
    case (Some m)
    have "isActiveCell cell w = Inr (find (\<lambda>meta. meta_id m = cm_id meta) (c # cs) \<noteq> None)"
      by (simp add: isActiveCell_def Cons Some)
    then have "isActiveCell cell w = Inr True \<longleftrightarrow>
        (\<exists>x \<in> set (c # cs). meta_id m = cm_id x)"
      using find_not_None [of "\<lambda>meta. meta_id m = cm_id meta" "c # cs"] by simp
    then show ?thesis
      using Some Cons by (metis option.inject)
  qed
qed

lemma or_false_eq: "or_false v = Some (case v of None \<Rightarrow> False | Some b \<Rightarrow> b)"
  by (cases v) (simp_all add: or_false_def)

lemma getBrushSelectionInfo_cases:
  "getBrushSelectionInfo (Some (IsBoolean b)) =
     \<lparr>dataCellBrushSelection = Some b, rowCellBrushSelection = Some b,
      colCellBrushSelection = Some b\<rparr>"
  "getBrushSelectionInfo None =
     \<lparr>dataCellBrushSelection = Some False, rowCellBrushSelection = Some False,
      colCellBrushSelection = Some False\<rparr>"
  "getBrushSelectionInfo (Some (IsObject bo)) =
     \<lparr>dataCellBrushSelection = Some (case dataCell bo of None \<Rightarrow> False | Some v \<Rightarrow> v),
      rowCellBrushSelection = Some (case rowCell bo of None \<Rightarrow> False | Some v \<Rightarrow> v),
      colCellBrushSelection = Some (case colCell bo of None \<Rightarrow> False | Some v \<Rightarrow> v)\<rparr>"
  by (simp_all add: getBrushSelectionInfo_def or_false_eq)

lemma getSelectedCellHighlight_cases:
  "selectedCellHighlight opts = Some (IsBoolean b) \<Longrightarrow> getSelectedCellHighlight opts =
     \<lparr>rowHeader = Some b, colHeader = Some b, currentRow = Some b, currentCol = Some b\<rparr>"
  "selectedCellHighlight opts = None \<Longrightarrow> getSelectedCellHighlight opts =
     \<lparr>rowHeader = Some False, colHeader = Some False, currentRow = Some False,
      currentCol = Some False\<rparr>"
  "selectedCellHighlight opts = Some (IsObject h) \<Longrightarrow> getSelectedCellHighlight opts =
     \<lparr>rowHeader = Some (case rowHeader h of None \<Rightarrow> False | Some v \<Rightarrow> v),
      colHeader = Some (case colHeader h of None \<Rightarrow> False | Some v \<Rightarrow> v),
      currentRow = Some (case currentRow h of None \<Rightarrow> False | Some v \<Rightarrow> v),
      currentCol = Some (case currentCol h of None \<Rightarrow> False | Some v \<Rightarrow> v)\<rparr>"
  by (simp_all add: getSelectedCellHighlight_def or_false_eq)

lemma getHoverHighlight_cases:
  "hoverHighlight opts = Some (IsBoolean b) \<Longrightarrow> getHoverHighlight opts =
     \<lparr>rowHeader = Some b, colHeader = Some b, currentRow = Some b, currentCol = Some b\<rparr>"
  "hoverHighlight opts = None \<Longrightarrow> getHoverHighlight opts =
     \<lparr>rowHeader = Some False, colHeader = Some False, currentRow = Some False,
      currentCol = Some False\<rparr>"
  "hoverHighlight opts = Some (IsObject h) \<Longrightarrow> getHoverHighlight opts =
     \<lparr>rowHeader = Some (case rowHeader h of None \<Rightarrow> False | Some v \<Rightarrow> v),
      colHeader = Some (case colHeader h of None \<Rightarrow> False | Some v \<Rightarrow> v),
      currentRow = Some (case currentRow h of None \<Rightarrow> False | Some v \<Rightarrow> v),
      currentCol = Some (case currentCol h of None \<Rightarrow> False | Some v \<Rightarrow> v)\<rparr>"
  by (simp_all add: getHoverHighlight_def or_false_eq)

lemma getBrushSelection_cases:
  "brushSelection opts = Some (IsBoolean b) \<Longrightarrow> getBrushSelection opts =
     \<lparr>dataCell = Some b, rowCell = Some b, colCell = Some b\<rparr>"
  "brushSelection opts = None \<Longrightarrow> getBrushSelection opts =
     \<lparr>dataCell = Some False, rowCell = Some False, colCell = Some False\<rparr>"
  "brushSelection opts = Some (IsObject bo) \<Longrightarrow> getBrushSelection opts =
     \<lparr>dataCell = Some (case dataCell bo of None \<Rightarrow> False | Some v \<Rightarrow> v),
      rowCell = Some (case rowCell bo of None \<Rightarrow> False | Some v \<Rightarrow> v),
      colCell = Some (case colCell bo of None \<Rightarrow> False | Some v \<Rightarrow> v)\<rparr>"
  by (simp_all add: getBrushSelection_def or_false_eq)

lemma boolean_or_option_cases:
  obtains "x = None" | b where "x = Some (IsBoolean b)" | h where "x = Some (IsObject h)"
proof (cases x)
  case None
  then show ?thesis using that by simp
next
  case (Some a)
  then show ?thesis using that by (cases a) simp_all
qed

lemma getBrushSelectionInfo_defined:
  "dataCellBrushSelection (getBrushSelectionInfo bs) \<noteq> None
   \<and> rowCellBrushSelection (getBrushSelectionInfo bs) \<noteq> None
   \<and> colCellBrushSelection (getBrushSelectionInfo bs) \<noteq> None"
  by (cases bs rule: boolean_or_option_cases) (simp_all add: getBrushSelectionInfo_cases)

lemma getSelectedCellHighlight_defined:
  "rowHeader (getSelectedCellHighlight opts) \<noteq> None
   \<and> colHeader (getSelectedCellHighlight opts) \<noteq> None
   \<and> currentRow (getSelectedCellHighlight opts) \<noteq> None
   \<and> currentCol (getSelectedCellHighlight opts) \<noteq> None"
  by (cases "selectedCellHighlight opts" rule: boolean_or_option_cases)
     (simp_all add: getSelectedCellHighlight_cases)

lemma getHoverHighlight_defined:
  "rowHeader (getHoverHighlight opts) \<noteq> None
   \<and> colHeader (getHoverHighlight opts) \<noteq> None
   \<and> currentRow (getHoverHighlight opts) \<noteq> None
   \<and> currentCol (getHoverHighlight opts) \<noteq> None"
  by (cases "hoverHighlight opts" rule: boolean_or_option_cases)
     (simp_all add: getHoverHighlight_cases)

lemma getBrushSelection_defined:
  "dataCell (getBrushSelection opts) \<noteq> None
   \<and> rowCell (getBrushSelection opts) \<noteq> None
   \<and> colCell (getBrushSelection opts) \<noteq> None"
  by (cases "brushSelection opts" rule: boolean_or_option_cases)
     (simp_all add: getBrushSelection_cases)

lemma changeState_below_guard:
  "\<not> changeState_guard info \<Longrightarrow> changeState env info w = changeState_apply env info w"
  by (simp add: changeState.simps)

lemma dispatch_without_own:
  "OnTriggerInteractionsResetEffect \<notin> set ls \<Longrightarrow>
   foldl (\<lambda>acc l. handle_visibilitychange l acc) w ls = w"
  by (induction ls arbitrary: w) (auto simp: handle_visibilitychange_def split: listener.splits)

lemma constructor_listeners:
  "visibilitychangeListeners (constructor env w0) =
     (if OnTriggerInteractionsResetEffect \<in> set (visibilitychangeListeners w0)
      then visibilitychangeListeners w0
      else visibilitychangeListeners w0 @ [OnTriggerInteractionsResetEffect])"
  by (simp add: constructor_def addEventListener_def registerInteractions_def
      registerEventController_def Let_def)

lemma constructor_interactionResets:
  "interactionResets (constructor env w0) = interactionResets w0"
  by (simp add: constructor_def addEventListener_def registerInteractions_def
      registerEventController_def Let_def)

lemma destroy_fields:
  "interactions (destroy w) = []"
  "intercepts (destroy w) = {}"
  "eventControllerClears (destroy w) = Suc (eventControllerClears w)"
  "clearedTimeouts (destroy w) = clearedTimeouts w @ [hoverTimer w]"
  "store_state (destroy w) = Some (defaultState w)"
  "visibilitychangeListeners (destroy w) =
     removeAll OnTriggerInteractionsResetEffect (visibilitychangeListeners w)"
  "interactionResets (destroy w) = interactionResets w"
  by (simp_all add: destroy_def removeEventListener_def resetState_def clearHoverTimer_def Let_def)

lemma example_interactions:
  "interactions (constructor example_env example_surroundings) =
     [(''cornerCellClick'', CornerCellClick), (''dataCellClick'', DataCellClick),
      (''rowColumnClick'', RowColumnClick), (''rowTextClick'', RowTextClick),
      (''mergedCellsClick'', MergedCellClick), (''hover'', HoverEvent),
      (''dataCellBrushSelection'', DataCellBrushSelection),
      (''rowCellBrushSelection'', RowCellBrushSelection),
      (''colCellBrushSelection'', ColCellBrushSelection),
      (''rowColResize'', RowColumnResize),
      (''dataCellMultiSelection'', DataCellMultiSelection),
      (''selectedCellMove'', SelectedCellMove)]"
  by (simp add: constructor_def addEventListener_def registerInteractions_def
      registerEventController_def getDefaultInteractions_def getBrushSelectionInfo_def
      not_mobile_and_def js_of_bool_option_def js_of_boolean_or_def example_env_def
      example_options_def example_surroundings_def Let_def)

lemma getState_updateCells [simp]: "getState (updateCells cs w) = getState w"
  by (simp add: updateCells_def getState_def split: option.splits)

lemma getState_addIntercepts [simp]: "getState (addIntercepts a w) = getState w"
  by (simp add: addIntercepts_def getState_def split: option.splits)

lemma getState_draw [simp]: "getState (draw w) = getState w"
  by (simp add: draw_def getState_def split: option.splits)

lemma getState_emit [simp]: "getState (emit e w) = getState w"
  by (simp add: emit_def getState_def split: option.splits)


lemma isSelectedCell_meta:
  "getMeta cell = Some m \<Longrightarrow>
   isSelectedCell cell w =
     Inr (isSelectedState w \<and> (\<exists>c \<in> set (getCells None w). cm_id c = meta_id m))"
proof (cases "getCells None w")
  case Nil
  then show ?thesis by (simp add: isSelectedCell_def isActiveCell_def)
next
  case (Cons c cs)
  assume m: "getMeta cell = Some m"
  have "isActiveCell cell w = Inr (find (\<lambda>meta. meta_id m = cm_id meta) (c # cs) \<noteq> None)"
    by (simp add: isActiveCell_def Cons m)
  then have "isActiveCell cell w = Inr (\<exists>x \<in> set (c # cs). meta_id m = cm_id x)"
    using find_not_None [of "\<lambda>meta. meta_id m = cm_id meta" "c # cs"] by simp
  moreover have "(\<exists>x \<in> set (c # cs). meta_id m = cm_id x) \<longleftrightarrow>
      (\<exists>x \<in> set (getCells None w). cm_id x = meta_id m)"
    unfolding Cons by (rule bex_cong) auto
  ultimately show ?thesis
    by (simp add: isSelectedCell_def)
qed

lemma getCells_addIntercepts [simp]: "getCells ts (addIntercepts a w) = getCells ts w"
  by (simp add: getCells_def)

lemma isSelectedState_addIntercepts [simp]:
  "isSelectedState (addIntercepts a w) = isSelectedState w"
  by (simp add: isSelectedState_def isStateOf_def)

lemma isSelectedCell_addIntercepts [simp]:
  "isSelectedCell cell (addIntercepts a w) = isSelectedCell cell w"
  by (simp add: isSelectedCell_def isActiveCell_def)

lemma getActiveCells_emit [simp]: "getActiveCells env (emit e w) = getActiveCells env w"
  by (simp add: getActiveCells_def getCells_def)

lemma changeState_returns:
  "\<not> changeState_guard info \<Longrightarrow> \<exists>w'. changeState env info w = Inr w'"
  by (simp add: changeState_below_guard changeState_apply_def getCurrentStateName_Inr Let_def)

lemma lastCells_getCells: "lastCells_or_empty (getState w) = getCells None w"
  by (simp add: lastCells_or_empty_def getCells_def)

lemma changeCell_selection_empty:
  "fst (changeCell_selection env options cell meta isSelected w) = [] \<longleftrightarrow>
     isSelected \<and> (opt_isMultiSelection options = Some True \<and> isSelectedState w \<longrightarrow>
                     (\<forall>c \<in> set (getCells None w). cm_id c = meta_id meta))"
  by (auto simp: changeCell_selection_def Let_def lastCells_getCells filter_empty_conv)

lemma changeCell_select_returns:
  assumes "selectedCells \<noteq> []"
  shows "\<exists>pre. changeCell_select env options cell meta selectedCells childrenNodes w =
           Inr (Some True, emit (GLOBAL_SELECTED (getActiveCells env pre)) pre)"
proof -
  let ?i = "\<lparr>stateName = Some (case opt_stateName options of None \<Rightarrow> SELECTED | Some n \<Rightarrow> n),
             cells = Some selectedCells,
             nodes = Some (if childrenNodes = [] then [meta] else childrenNodes),
             interactedCells = None, force = None, onUpdateCells = None\<rparr>"
  have "\<not> changeState_guard ?i"
    using assms by (simp add: changeState_guard_def cells_or_empty_def)
  then obtain w3 where "changeState env ?i w = Inr w3"
    using changeState_returns by blast
  then show ?thesis
    by (auto simp: changeCell_select_def Let_def)
qed

lemma example_selected_cell_a:
  "isSelectedCell (example_cell ''a'' ROW_CELL) example_selected = Inr True"
  by (simp add: isSelectedCell_meta [of _ "\<lparr>meta_id = ''a'', meta_x = Some 0, meta_y = Some 0,
        belongsCell = None\<rparr>"] example_cell_def isSelectedState_def isStateOf_def
      getState_def getCells_def example_selected_def example_surroundings_def)



section \<open>Properties\<close>

subsection \<open>\<open>changeCell\<close>\<close>

text \<open>
  C1, as stated: for every cell with a valid meta \<open>changeCell\<close> returns \<open>true\<close>. On
  a sheet where the row cell \<open>a\<close> is the one selected cell, \<open>changeCell\<close> on that cell
  takes the branch of the empty selection and returns \<open>undefined\<close>.
\<close>

theorem changeCell_returns_true_counterexample:
  "opt_cell (example_click (example_cell ''a'' ROW_CELL)) = Some (example_cell ''a'' ROW_CELL)
   \<and> getMeta (example_cell ''a'' ROW_CELL) =
       Some \<lparr>meta_id = ''a'', meta_x = Some 0, meta_y = Some 0, belongsCell = None\<rparr>
   \<and> map_sum id fst (changeCell example_env (example_click (example_cell ''a'' ROW_CELL))
        example_selected) = Inr None
   \<and> map_sum id fst (changeCell example_env (example_click (example_cell ''a'' ROW_CELL))
        example_selected) \<noteq> Inr (Some True)"
proof -
  have m: "getMeta (example_cell ''a'' ROW_CELL) =
       Some \<lparr>meta_id = ''a'', meta_x = Some 0, meta_y = Some 0, belongsCell = None\<rparr>"
    by (simp add: example_cell_def)
  have c: "opt_cell (example_click (example_cell ''a'' ROW_CELL)) =
       Some (example_cell ''a'' ROW_CELL)"
    by (simp add: example_click_def)
  have s: "changeCell_selection example_env (example_click (example_cell ''a'' ROW_CELL))
             (example_cell ''a'' ROW_CELL)
             \<lparr>meta_id = ''a'', meta_x = Some 0, meta_y = Some 0, belongsCell = None\<rparr> True
             (addIntercepts (Some [Intercept_HOVER]) example_selected) = ([], [])"
    by (simp add: changeCell_selection_def example_click_def Let_def)
  have "map_sum id fst (changeCell example_env (example_click (example_cell ''a'' ROW_CELL))
        example_selected) = Inr None"
    by (simp add: changeCell_def c m s example_selected_cell_a Let_def)
  then show ?thesis
    using m c by simp
qed

text \<open>
  C1, amended. For every cell with a valid meta (a meta that is not nil and has an
  \<open>x\<close>), \<open>changeCell\<close> returns without error and its last act is to emit
  \<open>GLOBAL_SELECTED\<close> with the active cells of that moment. When the cell is already
  selected and removing it leaves no selected cell (no multi-selection, or every
  recorded cell has the id of this one), \<open>changeCell\<close> calls \<open>reset\<close> after adding the
  \<open>HOVER\<close> intercept, which leaves no intercept, and returns \<open>undefined\<close>; in
  every other case it returns \<open>true\<close>.
\<close>

theorem changeCell_emits_selected:
  assumes c: "opt_cell options = Some cell"
    and m: "getMeta cell = Some meta"
    and x: "meta_x meta \<noteq> None"
  shows "\<exists>ret pre.
           changeCell env options w =
             Inr (ret, emit (GLOBAL_SELECTED (getActiveCells env pre)) pre)
           \<and> getActiveCells env (emit (GLOBAL_SELECTED (getActiveCells env pre)) pre) =
               getActiveCells env pre
           \<and> (if isSelectedCell cell w = Inr True
                  \<and> (opt_isMultiSelection options = Some True \<longrightarrow>
                       (\<forall>c \<in> set (getCells None w). cm_id c = meta_id meta))
               then ret = None
                    \<and> pre = reset env (addIntercepts (Some [Intercept_HOVER]) w)
                    \<and> intercepts pre = {}
               else ret = Some True)"
proof -
  let ?w1 = "addIntercepts (Some [Intercept_HOVER]) w"
  define sel where "sel \<longleftrightarrow> isSelectedState w \<and> (\<exists>c \<in> set (getCells None w). cm_id c = meta_id meta)"
  obtain xv where xv: "meta_x meta = Some xv"
    using x by auto
  have isc: "isSelectedCell cell w = Inr sel"
    unfolding sel_def by (rule isSelectedCell_meta [OF m])
  obtain selectedCells childrenNodes where
    sc: "changeCell_selection env options cell meta sel ?w1 = (selectedCells, childrenNodes)"
    by (cases "changeCell_selection env options cell meta sel ?w1") auto
  have D: "(isSelectedCell cell w = Inr True
             \<and> (opt_isMultiSelection options = Some True \<longrightarrow>
                  (\<forall>c \<in> set (getCells None w). cm_id c = meta_id meta)))
           \<longleftrightarrow> selectedCells = []"
  proof -
    have e: "selectedCells = [] \<longleftrightarrow>
        sel \<and> (opt_isMultiSelection options = Some True \<and> isSelectedState w \<longrightarrow>
                 (\<forall>c \<in> set (getCells None w). cm_id c = meta_id meta))"
      using changeCell_selection_empty [of env options cell meta sel ?w1] by (simp add: sc)
    have s: "sel \<Longrightarrow> isSelectedState w"
      by (simp add: sel_def)
    show ?thesis
      using s by (auto simp: isc e)
  qed
  have unfold: "changeCell env options w =
      (if selectedCells = [] then
         Inr (None, emit (GLOBAL_SELECTED (getActiveCells env (reset env ?w1))) (reset env ?w1))
       else changeCell_select env options cell meta selectedCells childrenNodes ?w1)"
    by (simp add: changeCell_def c m xv isc sc Let_def)
  show ?thesis
  proof (cases "selectedCells = []")
    case True
    have "intercepts (reset env ?w1) = {}"
      by (simp add: reset_def hideTooltip_def)
    then show ?thesis
      using True D unfold by auto
  next
    case False
    obtain pre where "changeCell_select env options cell meta selectedCells childrenNodes ?w1 =
           Inr (Some True, emit (GLOBAL_SELECTED (getActiveCells env pre)) pre)"
      using changeCell_select_returns [OF False] by blast
    then show ?thesis
      using False D unfold by auto
  qed
qed

theorem changeCell_emits_selected_witness:
  "opt_cell (example_click (example_cell ''a'' ROW_CELL)) = Some (example_cell ''a'' ROW_CELL)
   \<and> getMeta (example_cell ''a'' ROW_CELL) =
       Some \<lparr>meta_id = ''a'', meta_x = Some 0, meta_y = Some 0, belongsCell = None\<rparr>
   \<and> meta_x \<lparr>meta_id = ''a'', meta_x = Some 0, meta_y = Some 0, belongsCell = None\<rparr> \<noteq> None
   \<and> (\<exists>pre. changeCell example_env (example_click (example_cell ''a'' ROW_CELL)) example_selected
               = Inr (None, emit (GLOBAL_SELECTED (getActiveCells example_env pre)) pre)
            \<and> pre = reset example_env (addIntercepts (Some [Intercept_HOVER]) example_selected)
            \<and> intercepts pre = {})
   \<and> (\<exists>pre. changeCell example_env (example_click (example_cell ''a'' ROW_CELL))
               example_surroundings
               = Inr (Some True, emit (GLOBAL_SELECTED (getActiveCells example_env pre)) pre))"
proof -
  let ?m = "\<lparr>meta_id = ''a'', meta_x = Some (0::int), meta_y = Some (0::int), belongsCell = None\<rparr>"
  have c: "opt_cell (example_click (example_cell ''a'' ROW_CELL)) = Some (example_cell ''a'' ROW_CELL)"
    by (simp add: example_click_def)
  have m: "getMeta (example_cell ''a'' ROW_CELL) = Some ?m"
    by (simp add: example_cell_def)
  have x: "meta_x ?m \<noteq> None" by simp
  have n: "isSelectedCell (example_cell ''a'' ROW_CELL) example_surroundings \<noteq> Inr True"
    by (simp add: isSelectedCell_meta [OF m] isSelectedState_def isStateOf_def
      getState_def example_surroundings_def initial_defaultState_def)
  have o: "opt_isMultiSelection (example_click (example_cell ''a'' ROW_CELL)) \<noteq> Some True"
    by (simp add: example_click_def)
  from changeCell_emits_selected [OF c m x, of example_env example_selected]
    example_selected_cell_a o
  have 1: "\<exists>pre. changeCell example_env (example_click (example_cell ''a'' ROW_CELL)) example_selected
               = Inr (None, emit (GLOBAL_SELECTED (getActiveCells example_env pre)) pre)
            \<and> pre = reset example_env (addIntercepts (Some [Intercept_HOVER]) example_selected)
            \<and> intercepts pre = {}"
    by auto
  from changeCell_emits_selected [OF c m x, of example_env example_surroundings] n
  have 2: "\<exists>pre. changeCell example_env (example_click (example_cell ''a'' ROW_CELL))
               example_surroundings
               = Inr (Some True, emit (GLOBAL_SELECTED (getActiveCells example_env pre)) pre)"
    by auto
  show ?thesis using c m x 1 2 by blast
qed

subsection \<open>Intercepts\<close>

text \<open>
  C2. After \<open>addIntercepts(L)\<close> the intercept set is the previous set plus the elements
  of \<open>L\<close>; after \<open>removeIntercepts(L)\<close> it is the previous set minus the elements of \<open>L\<close>;
  \<open>hasIntercepts(L')\<close> is true exactly when some element of \<open>L'\<close> is in the set, so
  \<open>hasIntercepts([])\<close> is false. An omitted argument behaves as the empty list.
\<close>

theorem intercepts_add_remove_has:
  "addIntercepts (Some L) w = w\<lparr>intercepts := intercepts w \<union> set L\<rparr>
   \<and> removeIntercepts (Some L) w = w\<lparr>intercepts := intercepts w - set L\<rparr>
   \<and> (hasIntercepts (Some L') w \<longleftrightarrow> (\<exists>t \<in> set L'. t \<in> intercepts w))
   \<and> \<not> hasIntercepts (Some []) w
   \<and> addIntercepts None w = w \<and> removeIntercepts None w = w
   \<and> \<not> hasIntercepts None w"
  by (simp add: addIntercepts_def removeIntercepts_def hasIntercepts_def
      interceptTypes_arg_def foldl_insert foldl_delete some_iff)

theorem intercepts_add_remove_has_witness:
  "intercepts (addIntercepts (Some [Intercept_HOVER]) example_selected)
     = {OtherIntercept ''click'', Intercept_HOVER}
   \<and> hasIntercepts (Some [OtherIntercept ''resize'', OtherIntercept ''click'']) example_selected
   \<and> \<not> hasIntercepts (Some [Intercept_HOVER]) example_selected
   \<and> intercepts (removeIntercepts (Some [OtherIntercept ''click'']) example_selected) = {}"
  using intercepts_add_remove_has [of "[Intercept_HOVER]" example_selected
      "[OtherIntercept ''resize'', OtherIntercept ''click'']"]
    intercepts_add_remove_has [of "[OtherIntercept ''click'']" example_selected
      "[Intercept_HOVER]"]
  by (auto simp: example_selected_def example_surroundings_def)

subsection \<open>\<open>changeState\<close> on an empty selection\<close>

text \<open>
  C3. \<open>changeState\<close> with no cells and \<open>stateName\<close> \<open>SELECTED\<close>: without a true
  \<open>force\<close> it returns with nothing changed (no clear, no set, no redraw); with \<open>force\<close>
  it is the call of \<open>changeState\<close> with \<open>UNSELECTED\<close> and no cells, and that call does
  not meet the guard again: it runs the code below the guard and returns.
\<close>

theorem changeState_empty_selected:
  assumes "cells info = None \<or> cells info = Some []" and "stateName info = Some SELECTED"
  shows "(force info \<noteq> Some True \<longrightarrow> changeState env info w = Inr w)
         \<and> (force info = Some True \<longrightarrow>
              changeState env info w =
                changeState env
                  \<lparr>stateName = Some UNSELECTED, cells = Some [], nodes = None,
                   interactedCells = None, force = None, onUpdateCells = None\<rparr> w
              \<and> changeState env
                  \<lparr>stateName = Some UNSELECTED, cells = Some [], nodes = None,
                   interactedCells = None, force = None, onUpdateCells = None\<rparr> w =
                changeState_apply env
                  \<lparr>stateName = Some UNSELECTED, cells = Some [], nodes = None,
                   interactedCells = None, force = None, onUpdateCells = None\<rparr> w)
         \<and> \<not> changeState_guard
                \<lparr>stateName = Some UNSELECTED, cells = Some [], nodes = None,
                 interactedCells = None, force = None, onUpdateCells = None\<rparr>"
proof -
  have g: "changeState_guard info"
    using assms by (auto simp: changeState_guard_def cells_or_empty_def)
  have n: "\<not> changeState_guard
                \<lparr>stateName = Some UNSELECTED, cells = Some [], nodes = None,
                 interactedCells = None, force = None, onUpdateCells = None\<rparr>"
    by (simp add: changeState_guard_def)
  show ?thesis using g n by (simp add: changeState.simps [of env info w] changeState_below_guard)
qed

theorem changeState_empty_selected_witness:
  "changeState example_env
     \<lparr>stateName = Some SELECTED, cells = Some [], nodes = None, interactedCells = None,
      force = Some False, onUpdateCells = None\<rparr> example_selected = Inr example_selected
   \<and> changeState example_env
     \<lparr>stateName = Some SELECTED, cells = None, nodes = None, interactedCells = None,
      force = Some True, onUpdateCells = None\<rparr> example_selected =
     Inr (example_selected
           \<lparr>store_state := Some \<lparr>stateName = Some UNSELECTED, cells = Some [], nodes = None,
               interactedCells = None, force = None, onUpdateCells = None\<rparr>,
            renders := 2,
            updated := [example_cell ''bb'' DATA_CELL]\<rparr>)"
  using changeState_empty_selected [of
      "\<lparr>stateName = Some SELECTED, cells = Some [], nodes = None, interactedCells = None,
        force = Some False, onUpdateCells = None\<rparr>" example_env example_selected]
    changeState_empty_selected [of
      "\<lparr>stateName = Some SELECTED, cells = None, nodes = None, interactedCells = None,
        force = Some True, onUpdateCells = None\<rparr>" example_env example_selected]
  by (simp add: changeState_below_guard changeState_guard_def
      changeState_apply_def getCurrentStateName_Inr example_selected_def
      example_surroundings_def example_env_def clearState_def setState_def
      state_controller_clearState_def state_controller_setState_def getInteractedCells_def
      getCells_def getState_def resetState_def draw_def updateAllDataCells_def updateCells_def
      initial_defaultState_def)

subsection \<open>\<open>selectAll\<close>\<close>



subsection \<open>Selected state and selected cells\<close>

text \<open>
  C5. \<open>isSelectedState()\<close> is true exactly when the current state name is one of
  \<open>SELECTED\<close>, \<open>ALL_SELECTED\<close>, \<open>ROW_CELL_BRUSH_SELECTED\<close>, \<open>COL_CELL_BRUSH_SELECTED\<close>,
  \<open>DATA_CELL_BRUSH_SELECTED\<close>; \<open>isSelectedCell(cell)\<close> returns true exactly when
  \<open>isSelectedState()\<close> holds and the id of the cell's meta is the id of a cell recorded
  in the current state.
\<close>

theorem isSelectedState_isSelectedCell:
  "(isSelectedState w \<longleftrightarrow>
      getCurrentStateName w = Inr (Some SELECTED)
      \<or> getCurrentStateName w = Inr (Some ALL_SELECTED)
      \<or> getCurrentStateName w = Inr (Some ROW_CELL_BRUSH_SELECTED)
      \<or> getCurrentStateName w = Inr (Some COL_CELL_BRUSH_SELECTED)
      \<or> getCurrentStateName w = Inr (Some DATA_CELL_BRUSH_SELECTED))
   \<and> (isSelectedCell cell w = Inr True \<longleftrightarrow>
        isSelectedState w
        \<and> (\<exists>m. getMeta cell = Some m \<and> (\<exists>c \<in> set (getCells None w). cm_id c = meta_id m)))"
proof -
  have a: "isSelectedState w \<longleftrightarrow>
      getCurrentStateName w = Inr (Some SELECTED)
      \<or> getCurrentStateName w = Inr (Some ALL_SELECTED)
      \<or> getCurrentStateName w = Inr (Some ROW_CELL_BRUSH_SELECTED)
      \<or> getCurrentStateName w = Inr (Some COL_CELL_BRUSH_SELECTED)
      \<or> getCurrentStateName w = Inr (Some DATA_CELL_BRUSH_SELECTED)"
    by (simp add: isSelectedState_def isStateOf_def getCurrentStateName_Inr getState_Some)
  show ?thesis using a isActiveCell_True [of cell w] by (auto simp: isSelectedCell_def)
qed

theorem isSelectedState_isSelectedCell_witness:
  "isSelectedState example_selected
   \<and> isSelectedCell (example_cell ''a'' ROW_CELL) example_selected = Inr True
   \<and> isSelectedCell (example_cell ''bb'' DATA_CELL) example_selected \<noteq> Inr True
   \<and> \<not> isSelectedState example_surroundings"
  using isSelectedState_isSelectedCell [of example_selected "example_cell ''a'' ROW_CELL"]
    isSelectedState_isSelectedCell [of example_selected "example_cell ''bb'' DATA_CELL"]
    isSelectedState_isSelectedCell [of example_surroundings "example_cell ''a'' ROW_CELL"]
  by (simp add: example_selected_def example_surroundings_def example_cell_def getCells_def
      getState_def getCurrentStateName_def initial_defaultState_def)

subsection \<open>The \<open>visibilitychange\<close> listener\<close>

text \<open>
  C6. The constructor puts \<open>onTriggerInteractionsResetEffect\<close> on the
  \<open>visibilitychange\<close> listeners; that handler calls \<open>reset()\<close> on every registered
  interaction handler, so a \<open>visibilitychange\<close> after construction resets each of them.
  \<open>destroy()\<close> clears the interactions map, the intercept set, the event controller, the
  hover timer and the interaction state, in this order, and then removes that listener;
  a \<open>visibilitychange\<close> after \<open>destroy()\<close> changes nothing and resets no handler.
\<close>

theorem visibilitychange_listener_lifecycle:
  "OnTriggerInteractionsResetEffect \<in> set (visibilitychangeListeners (constructor env w0))
   \<and> handle_visibilitychange OnTriggerInteractionsResetEffect w =
       w\<lparr>interactionResets := interactionResets w @ interactions w\<rparr>
   \<and> (OnTriggerInteractionsResetEffect \<notin> set (visibilitychangeListeners w0) \<longrightarrow>
        dispatch_visibilitychange (constructor env w0) =
          (constructor env w0)
            \<lparr>interactionResets := interactionResets w0 @ interactions (constructor env w0)\<rparr>)
   \<and> destroy w =
       removeEventListener OnTriggerInteractionsResetEffect
         (resetState (clearHoverTimer
            (w\<lparr>interactions := [], intercepts := {},
               eventControllerClears := Suc (eventControllerClears w)\<rparr>)))
   \<and> interactions (destroy w) = []
   \<and> intercepts (destroy w) = {}
   \<and> eventControllerClears (destroy w) = Suc (eventControllerClears w)
   \<and> clearedTimeouts (destroy w) = clearedTimeouts w @ [hoverTimer w]
   \<and> store_state (destroy w) = Some (defaultState w)
   \<and> OnTriggerInteractionsResetEffect \<notin> set (visibilitychangeListeners (destroy w))
   \<and> dispatch_visibilitychange (destroy w) = destroy w
   \<and> interactionResets (dispatch_visibilitychange (destroy w)) = interactionResets w"
proof -
  have 1: "OnTriggerInteractionsResetEffect \<in> set (visibilitychangeListeners (constructor env w0))"
    by (simp add: constructor_listeners)
  have 2: "handle_visibilitychange OnTriggerInteractionsResetEffect w =
       w\<lparr>interactionResets := interactionResets w @ interactions w\<rparr>"
    by (simp add: handle_visibilitychange_def onTriggerInteractionsResetEffect_def)
  have 3: "dispatch_visibilitychange (constructor env w0) =
          (constructor env w0)
            \<lparr>interactionResets := interactionResets w0 @ interactions (constructor env w0)\<rparr>"
    if fresh: "OnTriggerInteractionsResetEffect \<notin> set (visibilitychangeListeners w0)"
  proof -
    have "dispatch_visibilitychange (constructor env w0) =
            handle_visibilitychange OnTriggerInteractionsResetEffect (constructor env w0)"
      unfolding dispatch_visibilitychange_def
      using fresh by (simp add: constructor_listeners dispatch_without_own)
    then show ?thesis
      by (simp add: handle_visibilitychange_def onTriggerInteractionsResetEffect_def
          constructor_interactionResets)
  qed
  have 4: "destroy w =
       removeEventListener OnTriggerInteractionsResetEffect
         (resetState (clearHoverTimer
            (w\<lparr>interactions := [], intercepts := {},
               eventControllerClears := Suc (eventControllerClears w)\<rparr>)))"
    by (simp add: destroy_def Let_def)
  have 5: "OnTriggerInteractionsResetEffect \<notin> set (visibilitychangeListeners (destroy w))"
    by (simp add: destroy_fields)
  have 6: "dispatch_visibilitychange (destroy w) = destroy w"
    unfolding dispatch_visibilitychange_def using 5 by (rule dispatch_without_own)
  have 7: "interactionResets (dispatch_visibilitychange (destroy w)) = interactionResets w"
    by (simp add: 6 destroy_fields)
  show ?thesis
    using 1 2 3 4 5 6 7 destroy_fields(1-5) [of w] by blast
qed

theorem visibilitychange_listener_lifecycle_witness:
  "OnTriggerInteractionsResetEffect \<notin> set (visibilitychangeListeners example_surroundings)
   \<and> interactionResets (dispatch_visibilitychange (constructor example_env example_surroundings)) =
       [(''cornerCellClick'', CornerCellClick), (''dataCellClick'', DataCellClick),
        (''rowColumnClick'', RowColumnClick), (''rowTextClick'', RowTextClick),
        (''mergedCellsClick'', MergedCellClick), (''hover'', HoverEvent),
        (''dataCellBrushSelection'', DataCellBrushSelection),
        (''rowCellBrushSelection'', RowCellBrushSelection),
        (''colCellBrushSelection'', ColCellBrushSelection),
        (''rowColResize'', RowColumnResize),
        (''dataCellMultiSelection'', DataCellMultiSelection),
        (''selectedCellMove'', SelectedCellMove)]
   \<and> interactionResets
       (dispatch_visibilitychange (destroy (constructor example_env example_surroundings))) = []
   \<and> visibilitychangeListeners (destroy (constructor example_env example_surroundings)) =
       [ForeignListener 7]"
proof -
  have fresh: "OnTriggerInteractionsResetEffect \<notin> set (visibilitychangeListeners example_surroundings)"
    by (simp add: example_surroundings_def)
  have r0: "interactionResets example_surroundings = []"
    by (simp add: example_surroundings_def)
  have l: "visibilitychangeListeners (destroy (constructor example_env example_surroundings)) =
       [ForeignListener 7]"
    by (simp add: destroy_fields constructor_listeners example_surroundings_def)
  note t = visibilitychange_listener_lifecycle
      [of example_env example_surroundings "constructor example_env example_surroundings"]
  from t fresh have d: "dispatch_visibilitychange (constructor example_env example_surroundings) =
          (constructor example_env example_surroundings)
            \<lparr>interactionResets := interactionResets example_surroundings
               @ interactions (constructor example_env example_surroundings)\<rparr>"
    by blast
  from t have e: "interactionResets
       (dispatch_visibilitychange (destroy (constructor example_env example_surroundings))) =
       interactionResets (constructor example_env example_surroundings)"
    by blast
  show ?thesis
    using fresh l by (simp add: d e example_interactions r0 constructor_interactionResets)
qed

subsection \<open>\<open>ColumnTextClick\<close>: the link-field jump\<close>

text \<open>
  C7, as stated: the record of the jump event is the data of the cell data with
  \<open>rowIndex\<close> set to the \<open>rowIndex\<close> of the cell data. It is not when the data has a
  \<open>rowIndex\<close> of its own: \<open>Object.assign({rowIndex}, record)\<close> lets the data win.
\<close>

theorem link_field_jump_rowIndex_counterexample:
  "isLinkFieldText example_base True
   \<and> on_COL_CELL_CLICK example_base True \<noteq>
       Inr [GLOBAL_LINK_FIELD_JUMP
              \<lparr>lf_cellData = example_cellData, lf_field = valueField example_cellData,
               lf_record = [''rowIndex'' \<mapsto> JNumber 5, ''city'' \<mapsto> JString ''Hangzhou'']
                             (''rowIndex'' \<mapsto> JNumber 2)\<rparr>]
   \<and> on_COL_CELL_CLICK example_base True =
       Inr [GLOBAL_LINK_FIELD_JUMP
              \<lparr>lf_cellData = example_cellData, lf_field = Some ''city'',
               lf_record = [''rowIndex'' \<mapsto> JNumber 5, ''city'' \<mapsto> JString ''Hangzhou'']\<rparr>]"
proof -
  have r: "[''rowIndex'' \<mapsto> JNumber 2] ++ [''rowIndex'' \<mapsto> JNumber 5, ''city'' \<mapsto> JString ''Hangzhou'']
           = [''rowIndex'' \<mapsto> JNumber 5, ''city'' \<mapsto> JString ''Hangzhou'']"
    by (rule ext) (simp add: map_add_def)
  have d: "[''rowIndex'' \<mapsto> JNumber 5, ''city'' \<mapsto> JString ''Hangzhou''] \<noteq>
           [''rowIndex'' \<mapsto> JNumber 5, ''city'' \<mapsto> JString ''Hangzhou''](''rowIndex'' \<mapsto> JNumber 2)"
  proof
    assume "[''rowIndex'' \<mapsto> JNumber 5, ''city'' \<mapsto> JString ''Hangzhou''] =
           [''rowIndex'' \<mapsto> JNumber 5, ''city'' \<mapsto> JString ''Hangzhou''](''rowIndex'' \<mapsto> JNumber 2)"
    then have "[''rowIndex'' \<mapsto> JNumber 5, ''city'' \<mapsto> JString ''Hangzhou''] ''rowIndex'' =
           ([''rowIndex'' \<mapsto> JNumber 5, ''city'' \<mapsto> JString ''Hangzhou''](''rowIndex'' \<mapsto> JNumber 2)) ''rowIndex''"
      by (rule arg_cong)
    then show False by simp
  qed
  have e: "on_COL_CELL_CLICK example_base True =
       Inr [GLOBAL_LINK_FIELD_JUMP
              \<lparr>lf_cellData = example_cellData, lf_field = Some ''city'',
               lf_record = [''rowIndex'' \<mapsto> JNumber 5, ''city'' \<mapsto> JString ''Hangzhou'']\<rparr>]"
    unfolding on_COL_CELL_CLICK_def emitLinkFieldClickEvent_def
    by (simp add: example_base_def example_cellData_def Object_assign_def js_of_number_def r)
  show ?thesis
    using d by (simp add: e) (simp add: example_base_def example_cellData_def)
qed

text \<open>
  C7, amended. A \<open>COL_CELL_CLICK\<close> on a target that is not link-field text emits
  nothing. On link-field text whose append info has cell data, the handler emits one
  \<open>GLOBAL_LINK_FIELD_JUMP\<close> with that cell data, \<open>field\<close> its \<open>valueField\<close>, and a record
  that has every property of the data and, when the data has no \<open>rowIndex\<close> of its own,
  \<open>rowIndex\<close> equal to the \<open>rowIndex\<close> of the cell data. On link-field text without
  cell data the handler throws a \<open>TypeError\<close> and emits nothing.
\<close>

theorem link_field_jump:
  "(\<not> isLinkFieldText base target \<longrightarrow> on_COL_CELL_CLICK base target = Inr [])
   \<and> (isLinkFieldText base target \<and> getCellAppendInfo_cellData base target = None \<longrightarrow>
        on_COL_CELL_CLICK base target = Inl TypeError)
   \<and> (isLinkFieldText base target \<and> getCellAppendInfo_cellData base target = Some cellData \<longrightarrow>
        (\<exists>r. on_COL_CELL_CLICK base target =
               Inr [GLOBAL_LINK_FIELD_JUMP
                      \<lparr>lf_cellData = cellData, lf_field = valueField cellData, lf_record = r\<rparr>]
             \<and> (\<forall>k. r k =
                    (case cd_data cellData of
                       None \<Rightarrow> (if k = ''rowIndex'' then Some (js_of_number (cd_rowIndex cellData))
                                else None)
                     | Some d \<Rightarrow>
                         (case d k of
                            Some v \<Rightarrow> Some v
                          | None \<Rightarrow> (if k = ''rowIndex''
                                     then Some (js_of_number (cd_rowIndex cellData)) else None))))))"
  by (auto simp: on_COL_CELL_CLICK_def emitLinkFieldClickEvent_def Object_assign_def map_add_def
      split: option.splits)

theorem link_field_jump_witness:
  "\<not> isLinkFieldText example_base False
   \<and> on_COL_CELL_CLICK example_base False = Inr []
   \<and> isLinkFieldText example_base True
   \<and> getCellAppendInfo_cellData example_base True = Some example_cellData
   \<and> (\<exists>r. on_COL_CELL_CLICK example_base True =
             Inr [GLOBAL_LINK_FIELD_JUMP
                    \<lparr>lf_cellData = example_cellData, lf_field = Some ''city'', lf_record = r\<rparr>]
           \<and> r ''rowIndex'' = Some (JNumber 5) \<and> r ''city'' = Some (JString ''Hangzhou'')
           \<and> r ''province'' = None)
   \<and> on_COL_CELL_CLICK (example_base\<lparr>getCellAppendInfo_cellData := (\<lambda>t. None)\<rparr>) True
       = Inl TypeError"
proof -
  have a: "\<not> isLinkFieldText example_base False"
    and b: "isLinkFieldText example_base True"
    and c: "getCellAppendInfo_cellData example_base True = Some example_cellData"
    by (simp_all add: example_base_def)
  have d: "isLinkFieldText (example_base\<lparr>getCellAppendInfo_cellData := (\<lambda>t. None)\<rparr>) True
           \<and> getCellAppendInfo_cellData (example_base\<lparr>getCellAppendInfo_cellData := (\<lambda>t. None)\<rparr>)
               True = None"
    by (simp add: example_base_def)
  from link_field_jump [of example_base False] a
  have 1: "on_COL_CELL_CLICK example_base False = Inr []" by blast
  from link_field_jump [of example_base True example_cellData] b c
  obtain r where r: "on_COL_CELL_CLICK example_base True =
               Inr [GLOBAL_LINK_FIELD_JUMP
                      \<lparr>lf_cellData = example_cellData, lf_field = valueField example_cellData,
                       lf_record = r\<rparr>]"
    and rk: "\<And>k. r k =
                    (case cd_data example_cellData of
                       None \<Rightarrow> (if k = ''rowIndex''
                                then Some (js_of_number (cd_rowIndex example_cellData)) else None)
                     | Some d \<Rightarrow>
                         (case d k of
                            Some v \<Rightarrow> Some v
                          | None \<Rightarrow> (if k = ''rowIndex''
                                     then Some (js_of_number (cd_rowIndex example_cellData))
                                     else None)))"
    by blast
  have 2: "r ''rowIndex'' = Some (JNumber 5) \<and> r ''city'' = Some (JString ''Hangzhou'')
           \<and> r ''province'' = None"
    by (simp add: rk example_cellData_def)
  from link_field_jump [of "example_base\<lparr>getCellAppendInfo_cellData := (\<lambda>t. None)\<rparr>" True] d
  have 3: "on_COL_CELL_CLICK (example_base\<lparr>getCellAppendInfo_cellData := (\<lambda>t. None)\<rparr>) True
       = Inl TypeError" by blast
  have 4: "valueField example_cellData = Some ''city''" by (simp add: example_cellData_def)
  show ?thesis using a b c 1 2 3 r 4 by auto
qed

subsection \<open>The option getters\<close>

text \<open>
  C8. \<open>getBrushSelectionInfo\<close>, \<open>getSelectedCellHighlight\<close>, \<open>getHoverHighlight\<close> and
  \<open>getBrushSelection\<close> turn a boolean option into a record whose every field is that
  boolean, a nil option into a record of \<open>false\<close>, and an options object into its
  fields with \<open>false\<close> for each missing one; no field of a result is \<open>undefined\<close>.
\<close>

theorem option_getters_defined:
  "getBrushSelectionInfo (Some (IsBoolean b)) =
     \<lparr>dataCellBrushSelection = Some b, rowCellBrushSelection = Some b,
      colCellBrushSelection = Some b\<rparr>
   \<and> getBrushSelectionInfo None =
     \<lparr>dataCellBrushSelection = Some False, rowCellBrushSelection = Some False,
      colCellBrushSelection = Some False\<rparr>
   \<and> getBrushSelectionInfo (Some (IsObject bo)) =
     \<lparr>dataCellBrushSelection = Some (case dataCell bo of None \<Rightarrow> False | Some v \<Rightarrow> v),
      rowCellBrushSelection = Some (case rowCell bo of None \<Rightarrow> False | Some v \<Rightarrow> v),
      colCellBrushSelection = Some (case colCell bo of None \<Rightarrow> False | Some v \<Rightarrow> v)\<rparr>
   \<and> getSelectedCellHighlight (opts\<lparr>selectedCellHighlight := Some (IsBoolean b)\<rparr>) =
     \<lparr>rowHeader = Some b, colHeader = Some b, currentRow = Some b, currentCol = Some b\<rparr>
   \<and> getSelectedCellHighlight (opts\<lparr>selectedCellHighlight := None\<rparr>) =
     \<lparr>rowHeader = Some False, colHeader = Some False, currentRow = Some False,
      currentCol = Some False\<rparr>
   \<and> getSelectedCellHighlight (opts\<lparr>selectedCellHighlight := Some (IsObject h)\<rparr>) =
     \<lparr>rowHeader = Some (case rowHeader h of None \<Rightarrow> False | Some v \<Rightarrow> v),
      colHeader = Some (case colHeader h of None \<Rightarrow> False | Some v \<Rightarrow> v),
      currentRow = Some (case currentRow h of None \<Rightarrow> False | Some v \<Rightarrow> v),
      currentCol = Some (case currentCol h of None \<Rightarrow> False | Some v \<Rightarrow> v)\<rparr>
   \<and> getHoverHighlight (opts\<lparr>hoverHighlight := Some (IsBoolean b)\<rparr>) =
     \<lparr>rowHeader = Some b, colHeader = Some b, currentRow = Some b, currentCol = Some b\<rparr>
   \<and> getHoverHighlight (opts\<lparr>hoverHighlight := None\<rparr>) =
     \<lparr>rowHeader = Some False, colHeader = Some False, currentRow = Some False,
      currentCol = Some False\<rparr>
   \<and> getHoverHighlight (opts\<lparr>hoverHighlight := Some (IsObject h)\<rparr>) =
     \<lparr>rowHeader = Some (case rowHeader h of None \<Rightarrow> False | Some v \<Rightarrow> v),
      colHeader = Some (case colHeader h of None \<Rightarrow> False | Some v \<Rightarrow> v),
      currentRow = Some (case currentRow h of None \<Rightarrow> False | Some v \<Rightarrow> v),
      currentCol = Some (case currentCol h of None \<Rightarrow> False | Some v \<Rightarrow> v)\<rparr>
   \<and> getBrushSelection (opts\<lparr>brushSelection := Some (IsBoolean b)\<rparr>) =
     \<lparr>dataCell = Some b, rowCell = Some b, colCell = Some b\<rparr>
   \<and> getBrushSelection (opts\<lparr>brushSelection := None\<rparr>) =
     \<lparr>dataCell = Some False, rowCell = Some False, colCell = Some False\<rparr>
   \<and> getBrushSelection (opts\<lparr>brushSelection := Some (IsObject bo)\<rparr>) =
     \<lparr>dataCell = Some (case dataCell bo of None \<Rightarrow> False | Some v \<Rightarrow> v),
      rowCell = Some (case rowCell bo of None \<Rightarrow> False | Some v \<Rightarrow> v),
      colCell = Some (case colCell bo of None \<Rightarrow> False | Some v \<Rightarrow> v)\<rparr>
   \<and> dataCellBrushSelection (getBrushSelectionInfo bs) \<noteq> None
   \<and> rowCellBrushSelection (getBrushSelectionInfo bs) \<noteq> None
   \<and> colCellBrushSelection (getBrushSelectionInfo bs) \<noteq> None
   \<and> rowHeader (getSelectedCellHighlight opts) \<noteq> None
   \<and> colHeader (getSelectedCellHighlight opts) \<noteq> None
   \<and> currentRow (getSelectedCellHighlight opts) \<noteq> None
   \<and> currentCol (getSelectedCellHighlight opts) \<noteq> None
   \<and> rowHeader (getHoverHighlight opts) \<noteq> None
   \<and> colHeader (getHoverHighlight opts) \<noteq> None
   \<and> currentRow (getHoverHighlight opts) \<noteq> None
   \<and> currentCol (getHoverHighlight opts) \<noteq> None
   \<and> dataCell (getBrushSelection opts) \<noteq> None
   \<and> rowCell (getBrushSelection opts) \<noteq> None
   \<and> colCell (getBrushSelection opts) \<noteq> None"
  by (intro conjI)
     (simp_all add: getBrushSelectionInfo_cases getSelectedCellHighlight_cases
        getHoverHighlight_cases getBrushSelection_cases getBrushSelectionInfo_defined
        getSelectedCellHighlight_defined getHoverHighlight_defined getBrushSelection_defined)

subsection \<open>\<open>getState\<close> and the default state\<close>




subsection \<open>\<open>handleLayoutHook\<close>: the hook is total\<close>

text \<open>
  C10. \<open>handleLayoutHook\<close> calls \<open>facetCfg.layout(facetCfg.spreadsheet, rowNode, colNode)\<close>
  once, and returns what the call returns, when \<open>facetCfg\<close> is not nil and has a
  \<open>layout\<close>; for a nil \<open>facetCfg\<close> and for one without \<open>layout\<close> it calls nothing
  and returns normally, the world as it was.
\<close>

theorem handleLayoutHook_total:
  "handleLayoutHook None rowNode colNode w = ([], Inr w)
   \<and> handleLayoutHook (Some \<lparr>spreadsheet = sheet, layout = None\<rparr>) rowNode colNode w = ([], Inr w)
   \<and> handleLayoutHook (Some \<lparr>spreadsheet = sheet, layout = Some f\<rparr>) rowNode colNode w =
       ([(sheet, rowNode, colNode)], f sheet rowNode colNode w)"
  by (simp add: handleLayoutHook_def)

end
